theory Spec2Isabelle
  imports Complex_Main "HOL-Library.Word" "HOL-Library.Log_Nat"
begin

section \<open>Bytes and Python primitives\<close>

text \<open>
  A Python \<^verbatim>\<open>bytes\<close> object is a list of 8-bit words; indexing it yields an integer in
  0..255, which \<open>unat\<close> and \<open>uint\<close> read off. Python integers are unbounded (\<open>int\<close>).
  Exceptions are values of \<open>py_error\<close>; a function that may raise returns
  \<open>py_error + 'a\<close> with \<open>Inl\<close> for the exception.
\<close>

type_synonym byte = "8 word"
type_synonym bytes = "byte list"

datatype py_error = OverflowError | IndexError | ZeroDivisionError | ValueError

text \<open>\<^verbatim>\<open>v.to_bytes(n, byteorder='little')\<close>: raises OverflowError for a negative \<open>v\<close>
  and for one that does not fit in \<open>n\<close> bytes.\<close>

definition to_bytes_little :: "int \<Rightarrow> nat \<Rightarrow> py_error + bytes" where
  "to_bytes_little v n =
     (if v < 0 \<or> 256 ^ n \<le> v then Inl OverflowError
      else Inr (map (\<lambda>i. word_of_int (v div 256 ^ i)) [0..<n]))"

text \<open>\<^verbatim>\<open>int.from_bytes(bs, byteorder='little')\<close>, unsigned and signed (two's complement
  over the width of \<open>bs\<close>; the empty byte string is 0 either way).\<close>

fun from_bytes_little :: "bytes \<Rightarrow> int" where
  "from_bytes_little [] = 0"
| "from_bytes_little (b # bs) = uint b + 256 * from_bytes_little bs"

definition from_bytes_little_signed :: "bytes \<Rightarrow> int" where
  "from_bytes_little_signed bs =
     (let v = from_bytes_little bs in
      if bs \<noteq> [] \<and> 2 ^ (8 * length bs - 1) \<le> v then v - 2 ^ (8 * length bs) else v)"

text \<open>The slice \<^verbatim>\<open>xs[i:j]\<close> for non-negative \<open>i\<close> and \<open>j\<close>, and \<^verbatim>\<open>xs[i:-k]\<close>
  for a positive \<open>k\<close>: a slice never raises, it is empty when the bounds cross.\<close>

definition slice :: "nat \<Rightarrow> nat \<Rightarrow> 'a list \<Rightarrow> 'a list" where
  "slice i j xs = drop i (take j xs)"

definition slice_from_end :: "nat \<Rightarrow> nat \<Rightarrow> 'a list \<Rightarrow> 'a list" where
  "slice_from_end i k xs = drop i (take (length xs - k) xs)"

text \<open>\<^verbatim>\<open>xs[i]\<close> raises IndexError out of range.\<close>

definition index :: "'a list \<Rightarrow> nat \<Rightarrow> py_error + 'a" where
  "index xs i = (if i < length xs then Inr (xs ! i) else Inl IndexError)"

text \<open>\<^verbatim>\<open>pat in line\<close> on bytes: \<open>pat\<close> occurs as a contiguous run of \<open>line\<close>.\<close>

fun starts_with :: "'a list \<Rightarrow> 'a list \<Rightarrow> bool" where
  "starts_with [] ys = True"
| "starts_with (x # xs) [] = False"
| "starts_with (x # xs) (y # ys) = (x = y \<and> starts_with xs ys)"

fun bytes_in :: "'a list \<Rightarrow> 'a list \<Rightarrow> bool" where
  "bytes_in pat [] = (pat = [])"
| "bytes_in pat (y # ys) = (starts_with pat (y # ys) \<or> bytes_in pat ys)"

text \<open>\<^verbatim>\<open>range(lo, hi, step)\<close> for a positive step.\<close>

definition py_range :: "int \<Rightarrow> int \<Rightarrow> int \<Rightarrow> int list" where
  "py_range lo hi step =
     map (\<lambda>k. lo + step * int k) [0..<nat ((hi - lo + step - 1) div step)]"

section \<open>Data model of radar\_handler.py\<close>

datatype TargetState = NO_TARGET | MOVING_TARGET | STATIC_TARGET | BOTH_TARGETS | UNKNOWN

record EngineeringData =
  max_moving_distance_gate :: byte
  max_static_distance_gate :: byte
  moving_energy_gates :: bytes
  static_energy_gates :: bytes

text \<open>The reading of one report frame. The wall-clock \<^verbatim>\<open>timestamp\<close> (a float taken
  from \<^verbatim>\<open>time.time()\<close>) is left out: nothing in the handler reads it.\<close>

record RadarReading =
  target_state :: TargetState
  moving_target_distance :: int
  moving_target_energy :: int
  static_target_distance :: int
  static_target_energy :: int
  detection_distance :: int
  engineering_data :: "EngineeringData option"

definition is_valid :: "RadarReading \<Rightarrow> bool" where
  "is_valid r =
     (0 \<le> detection_distance r \<and> detection_distance r \<le> 600 \<and>
      -100 \<le> moving_target_energy r \<and> moving_target_energy r \<le> 100 \<and>
      -100 \<le> static_target_energy r \<and> static_target_energy r \<le> 100 \<and>
      target_state r \<noteq> UNKNOWN)"

text \<open>A reading with the given state, energies and detection distance, for stating
  the boundary cases.\<close>

definition mk_reading :: "TargetState \<Rightarrow> int \<Rightarrow> int \<Rightarrow> int \<Rightarrow> RadarReading" where
  "mk_reading st me se dd =
     \<lparr>target_state = st, moving_target_distance = 0, moving_target_energy = me,
      static_target_distance = 0, static_target_energy = se, detection_distance = dd,
      engineering_data = None\<rparr>"

section \<open>The serial transport\<close>

text \<open>
  The serial port (pyserial) is outside the repository. The model keeps what the handler
  can observe of it: \<open>serial_in\<close> is the script of what the successive
  \<^verbatim>\<open>read_until\<close> calls return (the bytes that arrived before the terminator, the size
  bound or the one-second timeout; the empty byte string for a timeout with no byte, which
  is also what an exhausted script yields), and \<open>serial_out\<close> is the log of the
  frames written, oldest first. Every script is allowed, so a theorem about all states
  covers every behaviour of the device. \<^verbatim>\<open>reset_input_buffer\<close> discards bytes that
  arrived earlier; the script only holds what later reads return, so it changes nothing.
\<close>

record RadarHandler =
  serial_in :: "bytes list"
  serial_out :: "bytes list"
  readings_buffer :: "RadarReading list"
  max_buffer_size :: nat
  engineering_mode :: bool

definition COMMAND_HEADER :: bytes where "COMMAND_HEADER = [0xFD, 0xFC, 0xFB, 0xFA]"
definition COMMAND_TAIL :: bytes where "COMMAND_TAIL = [0x04, 0x03, 0x02, 0x01]"
definition REPORT_HEADER :: bytes where "REPORT_HEADER = [0xF4, 0xF3, 0xF2, 0xF1]"
definition REPORT_TAIL :: bytes where "REPORT_TAIL = [0xF8, 0xF7, 0xF6, 0xF5]"

text \<open>\<^verbatim>\<open>RadarHandler.__init__\<close>, on a port whose reads will follow the script.\<close>

definition RadarHandler_init :: "bytes list \<Rightarrow> RadarHandler" where
  "RadarHandler_init script =
     \<lparr>serial_in = script, serial_out = [], readings_buffer = [],
      max_buffer_size = 1000, engineering_mode = False\<rparr>"

definition serial_write :: "bytes \<Rightarrow> RadarHandler \<Rightarrow> RadarHandler" where
  "serial_write frame s = s\<lparr>serial_out := serial_out s @ [frame]\<rparr>"

text \<open>\<^verbatim>\<open>serial.read_until(expected, size)\<close>: at most \<open>size\<close> bytes when a size is given.\<close>

definition serial_read_until :: "nat option \<Rightarrow> RadarHandler \<Rightarrow> bytes \<times> RadarHandler" where
  "serial_read_until sz s =
     (case serial_in s of
        [] \<Rightarrow> ([], s)
      | line # rest \<Rightarrow>
          ((case sz of None \<Rightarrow> line | Some n \<Rightarrow> take n line), s\<lparr>serial_in := rest\<rparr>))"

section \<open>The command protocol of radar\_handler.py\<close>

text \<open>Debug printing and the stabilising \<^verbatim>\<open>time.sleep\<close> are left out of every
  operation: they change neither the state nor a result.\<close>

definition send_command :: "bytes \<Rightarrow> bytes \<Rightarrow> RadarHandler \<Rightarrow> py_error + (bytes \<times> RadarHandler)" where
  "send_command command_word command_value s =
     (case to_bytes_little (int (length command_word + length command_value)) 2 of
        Inl e \<Rightarrow> Inl e
      | Inr intra_frame_length \<Rightarrow>
          (let command = COMMAND_HEADER @ intra_frame_length @ command_word @ command_value
                           @ COMMAND_TAIL;
               s1 = serial_write command s;
               (response, s2) = serial_read_until (Some 100) s1
           in if length response < 12 then Inr ([], s2) else Inr (response, s2)))"

definition enable_configuration :: "RadarHandler \<Rightarrow> py_error + (bool \<times> RadarHandler)" where
  "enable_configuration s =
     (case send_command [0xFF, 0x00] [0x01, 0x00] s of
        Inl e \<Rightarrow> Inl e
      | Inr (response, s1) \<Rightarrow>
          if length response < 12 then Inr (False, s1)
          else Inr (from_bytes_little (slice 8 10 response) = 0, s1))"

definition end_configuration :: "RadarHandler \<Rightarrow> py_error + (bool \<times> RadarHandler)" where
  "end_configuration s =
     (case send_command [0xFE, 0x00] [] s of
        Inl e \<Rightarrow> Inl e
      | Inr (response, s1) \<Rightarrow>
          if length response < 12 then Inr (False, s1)
          else Inr (from_bytes_little (slice 8 10 response) = 0, s1))"

definition enable_engineering_mode :: "RadarHandler \<Rightarrow> py_error + (bool \<times> RadarHandler)" where
  "enable_engineering_mode s =
     (case enable_configuration s of
        Inl e \<Rightarrow> Inl e
      | Inr (False, s1) \<Rightarrow> Inr (False, s1)
      | Inr (True, s1) \<Rightarrow>
          (case send_command [0x62, 0x00] [] s1 of
             Inl e \<Rightarrow> Inl e
           | Inr (response, s2) \<Rightarrow>
               if length response < 12 then
                 (case end_configuration s2 of
                    Inl e \<Rightarrow> Inl e
                  | Inr (_, s3) \<Rightarrow> Inr (False, s3))
               else
                 (let status = from_bytes_little (slice 8 10 response);
                      s3 = (if status = 0 then s2\<lparr>engineering_mode := True\<rparr> else s2)
                  in case end_configuration s3 of
                       Inl e \<Rightarrow> Inl e
                     | Inr (_, s4) \<Rightarrow> Inr (status = 0, s4))))"

text \<open>\<^verbatim>\<open>disable_engineering_mode\<close> does not go through \<^verbatim>\<open>send_command\<close>: it writes
  the frame itself and reads the reply with no size bound and no length check.\<close>

definition disable_engineering_mode :: "RadarHandler \<Rightarrow> py_error + (bool \<times> RadarHandler)" where
  "disable_engineering_mode s =
     (case enable_configuration s of
        Inl e \<Rightarrow> Inl e
      | Inr (False, s1) \<Rightarrow> Inr (False, s1)
      | Inr (True, s1) \<Rightarrow>
          (case to_bytes_little 2 2 of
             Inl e \<Rightarrow> Inl e
           | Inr two \<Rightarrow>
               (let command = COMMAND_HEADER @ two @ [0x63, 0x00] @ COMMAND_TAIL;
                    s2 = serial_write command s1;
                    (response, s3) = serial_read_until None s2;
                    success = (from_bytes_little (slice 8 10 response) = 0);
                    s4 = (if success then s3\<lparr>engineering_mode := False\<rparr> else s3)
                in case end_configuration s4 of
                     Inl e \<Rightarrow> Inl e
                   | Inr (_, s5) \<Rightarrow> Inr (success, s5))))"

section \<open>The report decoder of radar\_handler.py\<close>

text \<open>\<^verbatim>\<open>_parse_target_state\<close>: the enum's values are 0..4; any other byte raises
  ValueError inside, which the function turns into UNKNOWN.\<close>

definition parse_target_state :: "byte \<Rightarrow> TargetState" where
  "parse_target_state state_byte =
     (if state_byte = 0 then NO_TARGET
      else if state_byte = 1 then MOVING_TARGET
      else if state_byte = 2 then STATIC_TARGET
      else if state_byte = 3 then BOTH_TARGETS
      else UNKNOWN)"

text \<open>The two gate loops of \<^verbatim>\<open>read_frame\<close>:
  \<^verbatim>\<open>for i in range(n): if offset + i < len(eng_data): energies.append(eng_data[offset + i])\<close>.
  \<open>gate_loop\<close> runs the body over the indices of the range, with the list built so far.\<close>

fun gate_loop :: "bytes \<Rightarrow> nat \<Rightarrow> nat list \<Rightarrow> bytes \<Rightarrow> bytes" where
  "gate_loop eng_data offset [] energies = energies"
| "gate_loop eng_data offset (i # rest) energies =
     gate_loop eng_data offset rest
       (if offset + i < length eng_data then energies @ [eng_data ! (offset + i)]
        else energies)"

text \<open>Lines 226 to 251: the engineering part of a payload. \<^verbatim>\<open>eng_data[1]\<close> raises
  IndexError when the part is a single byte.\<close>

definition parse_engineering :: "bytes \<Rightarrow> py_error + EngineeringData" where
  "parse_engineering eng_data =
     (case index eng_data 0 of
        Inl e \<Rightarrow> Inl e
      | Inr max_moving_gate \<Rightarrow>
          (case index eng_data 1 of
             Inl e \<Rightarrow> Inl e
           | Inr max_static_gate \<Rightarrow>
               (let offset = 2;
                    moving_energies =
                      gate_loop eng_data offset [0..<unat max_moving_gate + 1] [];
                    offset2 = offset + (unat max_moving_gate + 1);
                    static_energies =
                      gate_loop eng_data offset2 [0..<unat max_static_gate + 1] []
                in Inr \<lparr>max_moving_distance_gate = max_moving_gate,
                        max_static_distance_gate = max_static_gate,
                        moving_energy_gates = moving_energies,
                        static_energy_gates = static_energies\<rparr>)))"

text \<open>Lines 211 to 262 of \<^verbatim>\<open>read_frame\<close>: from the line read to the reading built.
  \<open>Inr None\<close> is an early \<^verbatim>\<open>return None\<close>, \<open>Inl\<close> an exception raised inside
  the \<^verbatim>\<open>try\<close> block.\<close>

definition decode_frame :: "bool \<Rightarrow> bytes \<Rightarrow> py_error + RadarReading option" where
  "decode_frame eng_mode serial_line =
     (if \<not> (bytes_in REPORT_HEADER serial_line \<and> bytes_in REPORT_TAIL serial_line)
      then Inr None
      else
        (let target_data = slice_from_end 8 6 serial_line in
         if length target_data < 9 then Inr None
         else
           (let basic_data = slice 0 9 target_data in
            case (if eng_mode \<and> 9 < length target_data
                  then (case parse_engineering (drop 9 target_data) of
                          Inl e \<Rightarrow> Inl e
                        | Inr d \<Rightarrow> Inr (Some d))
                  else Inr None) of
              Inl e \<Rightarrow> Inl e
            | Inr eng \<Rightarrow>
                Inr (Some
                  \<lparr>target_state = parse_target_state (basic_data ! 0),
                   moving_target_distance = from_bytes_little_signed (slice 1 3 basic_data),
                   moving_target_energy = from_bytes_little_signed (slice 3 4 basic_data),
                   static_target_distance = from_bytes_little_signed (slice 4 6 basic_data),
                   static_target_energy = from_bytes_little_signed (slice 6 7 basic_data),
                   detection_distance = \<bar>from_bytes_little_signed (slice 7 9 basic_data)\<bar>,
                   engineering_data = eng\<rparr>))))"

text \<open>\<^verbatim>\<open>read_frame\<close>: one read, the decoding, and the gate on validity. The
  \<^verbatim>\<open>except Exception\<close> clause turns every exception into \<^verbatim>\<open>None\<close>, so the
  function is total. \<^verbatim>\<open>pop(0)\<close> drops the head of the buffer.\<close>

definition read_frame :: "RadarHandler \<Rightarrow> RadarReading option \<times> RadarHandler" where
  "read_frame s =
     (let (serial_line, s1) = serial_read_until None s in
      case decode_frame (engineering_mode s1) serial_line of
        Inl e \<Rightarrow> (None, s1)
      | Inr None \<Rightarrow> (None, s1)
      | Inr (Some reading) \<Rightarrow>
          if is_valid reading then
            (let buf = readings_buffer s1 @ [reading];
                 buf2 = (if max_buffer_size s1 < length buf then tl buf else buf)
             in (Some reading, s1\<lparr>readings_buffer := buf2\<rparr>))
          else (None, s1))"

text \<open>A caller's loop of \<open>n\<close> reads: the results in order, and the state after.\<close>

fun read_frames :: "nat \<Rightarrow> RadarHandler \<Rightarrow> RadarReading option list \<times> RadarHandler" where
  "read_frames 0 s = ([], s)"
| "read_frames (Suc n) s =
     (let (r, s1) = read_frame s; (rs, s2) = read_frames n s1 in (r # rs, s2))"

section \<open>The calibrator of calibrate\_radar.py\<close>

record RadarCalibrator =
  radar :: RadarHandler
  original_settings :: "bytes option"

definition RadarCalibrator_init :: "bytes list \<Rightarrow> RadarCalibrator" where
  "RadarCalibrator_init script =
     \<lparr>radar = RadarHandler_init script, original_settings = None\<rparr>"

text \<open>\<^verbatim>\<open>bool(self.original_settings)\<close>: false for \<^verbatim>\<open>None\<close> and for the empty
  byte string.\<close>

definition backup_settings :: "RadarCalibrator \<Rightarrow> py_error + (bool \<times> RadarCalibrator)" where
  "backup_settings c =
     (case enable_configuration (radar c) of
        Inl e \<Rightarrow> Inl e
      | Inr (False, r1) \<Rightarrow> Inr (False, c\<lparr>radar := r1\<rparr>)
      | Inr (True, r1) \<Rightarrow>
          (case send_command [0x61, 0x00] [] r1 of
             Inl e \<Rightarrow> Inl e
           | Inr (response, r2) \<Rightarrow>
               (let settings = (if 30 \<le> length response
                                then Some (slice_from_end 8 4 response)
                                else original_settings c)
                in case end_configuration r2 of
                     Inl e \<Rightarrow> Inl e
                   | Inr (_, r3) \<Rightarrow>
                       Inr ((case settings of None \<Rightarrow> False | Some b \<Rightarrow> b \<noteq> []),
                            c\<lparr>radar := r3, original_settings := settings\<rparr>))))"

text \<open>The two-second \<^verbatim>\<open>time.sleep\<close> after the restart command is left out.\<close>

definition restore_factory_defaults :: "RadarCalibrator \<Rightarrow> py_error + (bool \<times> RadarCalibrator)" where
  "restore_factory_defaults c =
     (case enable_configuration (radar c) of
        Inl e \<Rightarrow> Inl e
      | Inr (False, r1) \<Rightarrow> Inr (False, c\<lparr>radar := r1\<rparr>)
      | Inr (True, r1) \<Rightarrow>
          (case send_command [0xA2, 0x00] [] r1 of
             Inl e \<Rightarrow> Inl e
           | Inr (response, r2) \<Rightarrow>
               (let success = (10 \<le> length response \<and> slice 8 10 response = [0x00, 0x00])
                in case (if success
                         then (case send_command [0xA3, 0x00] [] r2 of
                                 Inl e \<Rightarrow> Inl e
                               | Inr (_, r3) \<Rightarrow> Inr r3)
                         else Inr r2) of
                     Inl e \<Rightarrow> Inl e
                   | Inr r4 \<Rightarrow>
                       (case end_configuration r4 of
                          Inl e \<Rightarrow> Inl e
                        | Inr (_, r5) \<Rightarrow> Inr (success, c\<lparr>radar := r5\<rparr>)))))"

definition configure_detection_gates ::
  "int \<Rightarrow> int \<Rightarrow> RadarCalibrator \<Rightarrow> py_error + (bool \<times> RadarCalibrator)" where
  "configure_detection_gates moving_gate static_gate c =
     (if \<not> (1 \<le> moving_gate \<and> moving_gate \<le> 8 \<and> 1 \<le> static_gate \<and> static_gate \<le> 8)
      then Inr (False, c)
      else
        (case enable_configuration (radar c) of
           Inl e \<Rightarrow> Inl e
         | Inr (False, r1) \<Rightarrow> Inr (False, c\<lparr>radar := r1\<rparr>)
         | Inr (True, r1) \<Rightarrow>
             (case to_bytes_little moving_gate 4 of Inl e \<Rightarrow> Inl e | Inr mg \<Rightarrow>
             (case to_bytes_little static_gate 4 of Inl e \<Rightarrow> Inl e | Inr sg \<Rightarrow>
             (case to_bytes_little 5 4 of Inl e \<Rightarrow> Inl e | Inr nm \<Rightarrow>
                (let val = [0x00, 0x00] @ mg @ [0x01, 0x00] @ sg @ [0x02, 0x00] @ nm
                 in case send_command [0x60, 0x00] val r1 of
                      Inl e \<Rightarrow> Inl e
                    | Inr (response, r2) \<Rightarrow>
                        (let success =
                               (10 \<le> length response \<and> slice 8 10 response = [0x00, 0x00])
                         in case end_configuration r2 of
                              Inl e \<Rightarrow> Inl e
                            | Inr (_, r3) \<Rightarrow> Inr (success, c\<lparr>radar := r3\<rparr>))))))))"

definition configure_sensitivity ::
  "int \<Rightarrow> int \<Rightarrow> int \<Rightarrow> RadarCalibrator \<Rightarrow> py_error + (bool \<times> RadarCalibrator)" where
  "configure_sensitivity gate motion_sensitivity static_sensitivity c =
     (if \<not> (0 \<le> gate \<and> gate \<le> 8) then Inr (False, c)
      else if \<not> (0 \<le> motion_sensitivity \<and> motion_sensitivity \<le> 100 \<and>
                  0 \<le> static_sensitivity \<and> static_sensitivity \<le> 100)
      then Inr (False, c)
      else
        (case enable_configuration (radar c) of
           Inl e \<Rightarrow> Inl e
         | Inr (False, r1) \<Rightarrow> Inr (False, c\<lparr>radar := r1\<rparr>)
         | Inr (True, r1) \<Rightarrow>
             (case to_bytes_little gate 4 of Inl e \<Rightarrow> Inl e | Inr g \<Rightarrow>
             (case to_bytes_little motion_sensitivity 4 of Inl e \<Rightarrow> Inl e | Inr ms \<Rightarrow>
             (case to_bytes_little static_sensitivity 4 of Inl e \<Rightarrow> Inl e | Inr ss \<Rightarrow>
                (let val = [0x00, 0x00] @ g @ [0x01, 0x00] @ ms @ [0x02, 0x00] @ ss
                 in case send_command [0x64, 0x00] val r1 of
                      Inl e \<Rightarrow> Inl e
                    | Inr (response, r2) \<Rightarrow>
                        (let success =
                               (10 \<le> length response \<and> slice 8 10 response = [0x00, 0x00])
                         in case end_configuration r2 of
                              Inl e \<Rightarrow> Inl e
                            | Inr (_, r3) \<Rightarrow> Inr (success, c\<lparr>radar := r3\<rparr>))))))))"

text \<open>The inner loop of \<^verbatim>\<open>find_optimal_sensitivity\<close>, \<^verbatim>\<open>for _ in range(samples)\<close>:
  one \<^verbatim>\<open>read_frame\<close> per round, counted as a detection when it yields a valid reading
  whose state is not NO\_TARGET. The list of measured distances only feeds a printed
  diagnostic and is left out, as are the prompt and the sleeps.\<close>

fun sample_loop :: "nat \<Rightarrow> RadarHandler \<Rightarrow> nat \<Rightarrow> nat \<times> RadarHandler" where
  "sample_loop 0 r detections = (detections, r)"
| "sample_loop (Suc n) r detections =
     (case read_frame r of
        (reading, r1) \<Rightarrow>
          sample_loop n r1
            (case reading of
               None \<Rightarrow> detections
             | Some rd \<Rightarrow>
                 if is_valid rd \<and> target_state rd \<noteq> NO_TARGET then detections + 1
                 else detections))"

text \<open>The outer loop over \<^verbatim>\<open>range(min_sensitivity, max_sensitivity + 1, 5)\<close>, with the
  pair (best\_sensitivity, best\_detection\_rate) carried along. The division
  \<^verbatim>\<open>detections / samples\<close> raises ZeroDivisionError for \<open>samples = 0\<close>; the quotient
  of the two integers is taken in the reals.\<close>

fun sweep_loop ::
  "int list \<Rightarrow> int \<Rightarrow> RadarCalibrator \<Rightarrow> int \<times> real
     \<Rightarrow> py_error + ((int \<times> real) \<times> RadarCalibrator)" where
  "sweep_loop [] samples c best = Inr (best, c)"
| "sweep_loop (sensitivity # rest) samples c (best_sensitivity, best_detection_rate) =
     (case configure_sensitivity 0xFF sensitivity sensitivity c of
        Inl e \<Rightarrow> Inl e
      | Inr (_, c1) \<Rightarrow>
          (case sample_loop (nat samples) (radar c1) 0 of
             (detections, r1) \<Rightarrow>
               if samples = 0 then Inl ZeroDivisionError
               else
                 (let detection_rate = real detections / real_of_int samples
                  in if best_detection_rate < detection_rate
                     then sweep_loop rest samples (c1\<lparr>radar := r1\<rparr>)
                            (sensitivity, detection_rate)
                     else sweep_loop rest samples (c1\<lparr>radar := r1\<rparr>)
                            (best_sensitivity, best_detection_rate))))"

definition find_optimal_sensitivity ::
  "real \<Rightarrow> int \<Rightarrow> int \<Rightarrow> int \<Rightarrow> RadarCalibrator
     \<Rightarrow> py_error + ((int \<times> real) \<times> RadarCalibrator)" where
  "find_optimal_sensitivity distance min_sensitivity max_sensitivity samples c =
     sweep_loop (py_range min_sensitivity (max_sensitivity + 1) 5) samples c (0, 0)"

text \<open>What the sweep measures: the pairs (sensitivity, detection rate) of the rounds it
  completes, in order. It follows \<open>sweep_loop\<close> round by round and is used to state
  what the returned pair is.\<close>

fun sweep_trace :: "int list \<Rightarrow> int \<Rightarrow> RadarCalibrator \<Rightarrow> (int \<times> real) list" where
  "sweep_trace [] samples c = []"
| "sweep_trace (sensitivity # rest) samples c =
     (case configure_sensitivity 0xFF sensitivity sensitivity c of
        Inl e \<Rightarrow> []
      | Inr (_, c1) \<Rightarrow>
          (case sample_loop (nat samples) (radar c1) 0 of
             (detections, r1) \<Rightarrow>
               if samples = 0 then []
               else (sensitivity, real detections / real_of_int samples)
                      # sweep_trace rest samples (c1\<lparr>radar := r1\<rparr>)))"

section \<open>MovingAverage of engg\_mode\_demo\_normed.py\<close>

text \<open>Python's true division \<^verbatim>\<open>a / b\<close> of two ints returns a float: the IEEE 754
  double nearest to the exact quotient, the one with the even significand when the quotient
  lies halfway between two doubles. It raises ZeroDivisionError for \<open>b = 0\<close> and
  OverflowError when the rounded quotient is \<open>2 ^ 1024\<close> or more, which no double holds.
  A double is a multiple \<open>n * 2 ^ p\<close> of a power of two with \<open>n < 2 ^ 53\<close> and
  \<open>- 1074 \<le> p\<close>: for a quotient of magnitude in \<open>[2 ^ e, 2 ^ (e + 1))\<close> the doubles around it
  are the multiples of \<open>2 ^ p\<close> with \<open>p = max e (- 1022) - 52\<close>. The float returned is
  kept as the real number it denotes.\<close>

text \<open>The integer nearest to \<open>num / den\<close> for \<open>0 < den\<close>, the even one of the two when
  \<open>num / den\<close> lies halfway.\<close>

definition round_half_even_div :: "int \<Rightarrow> int \<Rightarrow> int" where
  "round_half_even_div num den =
     (let q = num div den; r = num mod den
      in if 2 * r < den then q
         else if den < 2 * r then q + 1
         else if even q then q else q + 1)"

text \<open>\<open>d\<close> is the difference of the bit lengths of the two magnitudes, \<open>e\<close> the exponent
  of the quotient (\<open>d\<close> or \<open>d - 1\<close>), \<open>n\<close> the quotient in units of \<open>2 ^ p\<close>, rounded.\<close>

definition int_true_divide :: "int \<Rightarrow> int \<Rightarrow> py_error + real" where
  "int_true_divide a b =
     (if b = 0 then Inl ZeroDivisionError
      else if a = 0 then Inr 0
      else
        (let x = \<bar>a\<bar>; y = \<bar>b\<bar>;
             d = bitlen x - bitlen y;
             e = (if x * 2 ^ nat (- d) < y * 2 ^ nat d then d - 1 else d);
             p = max e (- 1022) - 52;
             n = round_half_even_div (x * 2 ^ nat (- p)) (y * 2 ^ nat p);
             v = real_of_int (n * 2 ^ nat p) / real_of_int (2 ^ nat (- p))
         in if 2 ^ 1024 \<le> v then Inl OverflowError
            else Inr (if (a < 0) = (b < 0) then v else - v)))"

text \<open>\<^verbatim>\<open>deque(maxlen=size)\<close> raises ValueError for a negative size. Appending to a
  bounded deque that is full drops its oldest element (with the bound 0 the deque stays
  empty). The samples are Python ints, as the gate energies are that
  \<^verbatim>\<open>print_gate_data\<close> passes to \<^verbatim>\<open>add\<close> (bytes of a frame): \<^verbatim>\<open>sum\<close> of
  ints is exact, and \<^verbatim>\<open>sum(self.values) / len(self.values)\<close> is the true division of
  two ints. A float among the samples would make \<^verbatim>\<open>sum\<close> a float sum, whose rounding
  is the interpreter's; this is not modelled.\<close>

record MovingAverage =
  size_ma :: nat
  values_ma :: "int list"


definition deque_append :: "nat \<Rightarrow> 'a list \<Rightarrow> 'a \<Rightarrow> 'a list" where
  "deque_append maxlen d x =
     (let d1 = d @ [x] in if maxlen < length d1 then tl d1 else d1)"

text \<open>The property \<^verbatim>\<open>average\<close>: the int 0 for an empty deque, otherwise the float
  \<^verbatim>\<open>sum(self.values) / len(self.values)\<close>, or the OverflowError of that division.\<close>

definition average :: "MovingAverage \<Rightarrow> py_error + real" where
  "average m =
     (if values_ma m = [] then Inr 0
      else int_true_divide (sum_list (values_ma m)) (int (length (values_ma m))))"

text \<open>\<^verbatim>\<open>add\<close> appends first, so the sample stays in the deque when the division
  raises.\<close>

definition add :: "int \<Rightarrow> MovingAverage \<Rightarrow> (py_error + real) \<times> MovingAverage" where
  "add x m =
     (let m1 = m\<lparr>values_ma := deque_append (size_ma m) (values_ma m) x\<rparr>
      in (average m1, m1))"


section \<open>Observations used to state the properties\<close>

text \<open>The frame that \<^verbatim>\<open>end_configuration\<close> writes (command word FE 00, no value), the
  number of such frames an operation added to the log, and whether the session-open
  command at the start of an operation reports success.\<close>

definition END_CONFIGURATION_FRAME :: bytes where
  "END_CONFIGURATION_FRAME = [0xFD, 0xFC, 0xFB, 0xFA, 0x02, 0x00, 0xFE, 0x00, 0x04, 0x03, 0x02, 0x01]"

definition closes_issued :: "RadarHandler \<Rightarrow> RadarHandler \<Rightarrow> nat" where
  "closes_issued s s' =
     count_list (drop (length (serial_out s)) (serial_out s')) END_CONFIGURATION_FRAME"

definition session_opened :: "RadarHandler \<Rightarrow> bool" where
  "session_opened s = (case enable_configuration s of Inl e \<Rightarrow> False | Inr (ok, _) \<Rightarrow> ok)"

text \<open>The operations that bracket a command in a configuration session, run on a
  calibrator. \<open>accepts_arguments\<close> is the range check that
  \<^verbatim>\<open>configure_detection_gates\<close> and \<^verbatim>\<open>configure_sensitivity\<close> make before they
  open the session.\<close>

datatype operation =
    EnableEngineeringMode
  | DisableEngineeringMode
  | BackupSettings
  | RestoreFactoryDefaults
  | ConfigureDetectionGates int int
  | ConfigureSensitivity int int int

fun on_radar ::
  "(RadarHandler \<Rightarrow> py_error + (bool \<times> RadarHandler)) \<Rightarrow> RadarCalibrator
     \<Rightarrow> py_error + (bool \<times> RadarCalibrator)" where
  "on_radar f c =
     (case f (radar c) of Inl e \<Rightarrow> Inl e | Inr (ok, r) \<Rightarrow> Inr (ok, c\<lparr>radar := r\<rparr>))"

fun run_operation :: "operation \<Rightarrow> RadarCalibrator \<Rightarrow> py_error + (bool \<times> RadarCalibrator)" where
  "run_operation EnableEngineeringMode c = on_radar enable_engineering_mode c"
| "run_operation DisableEngineeringMode c = on_radar disable_engineering_mode c"
| "run_operation BackupSettings c = backup_settings c"
| "run_operation RestoreFactoryDefaults c = restore_factory_defaults c"
| "run_operation (ConfigureDetectionGates mg sg) c = configure_detection_gates mg sg c"
| "run_operation (ConfigureSensitivity g ms ss) c = configure_sensitivity g ms ss c"

fun accepts_arguments :: "operation \<Rightarrow> bool" where
  "accepts_arguments (ConfigureDetectionGates mg sg) = (1 \<le> mg \<and> mg \<le> 8 \<and> 1 \<le> sg \<and> sg \<le> 8)"
| "accepts_arguments (ConfigureSensitivity g ms ss) =
     (0 \<le> g \<and> g \<le> 8 \<and> 0 \<le> ms \<and> ms \<le> 100 \<and> 0 \<le> ss \<and> ss \<le> 100)"
| "accepts_arguments _ = True"

text \<open>The readings a sequence of \<^verbatim>\<open>read_frame\<close> results yielded, in order.\<close>

fun yielded :: "'a option list \<Rightarrow> 'a list" where
  "yielded [] = []"
| "yielded (None # rs) = yielded rs"
| "yielded (Some r # rs) = r # yielded rs"

text \<open>The lines the next \<open>n\<close> reads return from a script (the empty line once the
  script is used up), and the reading a line carries when it decodes to a valid one.\<close>

fun lines_read :: "nat \<Rightarrow> bytes list \<Rightarrow> bytes list" where
  "lines_read 0 script = []"
| "lines_read (Suc n) [] = [] # lines_read n []"
| "lines_read (Suc n) (line # rest) = line # lines_read n rest"

definition valid_reading :: "bool \<Rightarrow> bytes \<Rightarrow> RadarReading option" where
  "valid_reading eng_mode line =
     (case decode_frame eng_mode line of
        Inl e \<Rightarrow> None
      | Inr None \<Rightarrow> None
      | Inr (Some r) \<Rightarrow> if is_valid r then Some r else None)"

text \<open>The pair the sweep keeps after a list of measured (sensitivity, rate) pairs:
  replaced only by a strictly greater rate.\<close>

fun pick_best :: "(int \<times> real) list \<Rightarrow> int \<times> real \<Rightarrow> int \<times> real" where
  "pick_best [] best = best"
| "pick_best ((s, r) # rest) (bs, br) =
     (if br < r then pick_best rest (s, r) else pick_best rest (bs, br))"


section \<open>Example frames\<close>

text \<open>The module's acknowledgement of the enter-configuration command (status 0 at
  offsets 8 and 9), and report frames: a static target at 30 cm, the same with a detection
  distance of 601 cm, no target, and an engineering-mode frame that declares three moving
  gates but carries only the bytes 7 and 9 after the two gate counts.\<close>

definition ack_enter :: bytes where
  "ack_enter = [0xFD, 0xFC, 0xFB, 0xFA, 0x08, 0x00, 0xFF, 0x01, 0x00, 0x00, 0x01, 0x00,
                0x40, 0x00, 0x04, 0x03, 0x02, 0x01]"

definition static_frame :: bytes where
  "static_frame = [0xF4, 0xF3, 0xF2, 0xF1, 0x0D, 0x00, 0x02, 0xAA,
                   0x02, 0x1E, 0x00, 0x32, 0x1E, 0x00, 0x28, 0x1E, 0x00,
                   0x55, 0x00, 0xF8, 0xF7, 0xF6, 0xF5]"

definition far_frame :: bytes where
  "far_frame = [0xF4, 0xF3, 0xF2, 0xF1, 0x0D, 0x00, 0x02, 0xAA,
                0x02, 0x1E, 0x00, 0x32, 0x1E, 0x00, 0x28, 0x59, 0x02,
                0x55, 0x00, 0xF8, 0xF7, 0xF6, 0xF5]"


definition short_engineering_frame :: bytes where
  "short_engineering_frame =
     [0xF4, 0xF3, 0xF2, 0xF1, 0x11, 0x00, 0x01, 0xAA,
      0x02, 0x1E, 0x00, 0x32, 0x1E, 0x00, 0x28, 0x1E, 0x00,
      0x02, 0x00, 0x07, 0x09,
      0x55, 0x00, 0xF8, 0xF7, 0xF6, 0xF5]"




section \<open>Auxiliary facts\<close>

subsection \<open>Bytes\<close>

lemma to_bytes_little_2:
  "to_bytes_little v 2 =
     (if v < 0 \<or> 65536 \<le> v then Inl OverflowError
      else Inr [word_of_int v, word_of_int (v div 256)])"
  by (simp add: to_bytes_little_def upt_rec [of 0] upt_rec [of 1] upt_rec [of "Suc 0"] upt_rec [of 2])

lemma to_bytes_little_4:
  "to_bytes_little v 4 =
     (if v < 0 \<or> 4294967296 \<le> v then Inl OverflowError
      else Inr [word_of_int v, word_of_int (v div 256), word_of_int (v div 65536),
                word_of_int (v div 16777216)])"
  by (simp add: to_bytes_little_def upt_rec [of 0] upt_rec [of 1] upt_rec [of "Suc 0"] upt_rec [of 2]
       upt_rec [of 3] upt_rec [of 4] eval_nat_numeral)

subsection \<open>What a command writes\<close>

lemma send_command_out:
  assumes "to_bytes_little (int (length cw + length cv)) 2 = Inr lenb"
  shows "\<exists>resp s'. send_command cw cv s = Inr (resp, s') \<and> (resp = [] \<or> 12 \<le> length resp) \<and>
     serial_out s' = serial_out s @ [COMMAND_HEADER @ lenb @ cw @ cv @ COMMAND_TAIL]
     \<and> readings_buffer s' = readings_buffer s \<and> max_buffer_size s' = max_buffer_size s
     \<and> engineering_mode s' = engineering_mode s"
  using assms
  by (auto simp: send_command_def serial_write_def serial_read_until_def Let_def
       split: list.splits)

lemma send_word_out:
  "\<exists>resp s'. send_command [a, b] [] s = Inr (resp, s') \<and> (resp = [] \<or> 12 \<le> length resp) \<and>
     serial_out s' = serial_out s @ [[0xFD, 0xFC, 0xFB, 0xFA, 0x02, 0x00, a, b, 0x04, 0x03, 0x02, 0x01]]
     \<and> readings_buffer s' = readings_buffer s \<and> max_buffer_size s' = max_buffer_size s
     \<and> engineering_mode s' = engineering_mode s"
proof -
  have "to_bytes_little (int (length [a, b] + length ([]::bytes))) 2 = Inr [2, 0]"
    by (simp add: to_bytes_little_2)
  from send_command_out [OF this, of s]
  show ?thesis by (simp add: COMMAND_HEADER_def COMMAND_TAIL_def)
qed

lemma enable_configuration_out:
  "\<exists>ok s'. enable_configuration s = Inr (ok, s') \<and>
     serial_out s' = serial_out s @ [[0xFD, 0xFC, 0xFB, 0xFA, 0x04, 0x00, 0xFF, 0x00, 0x01, 0x00, 0x04, 0x03, 0x02, 0x01]]
     \<and> readings_buffer s' = readings_buffer s \<and> max_buffer_size s' = max_buffer_size s
     \<and> engineering_mode s' = engineering_mode s"
proof -
  have "to_bytes_little (int (length [0xFF, 0x00::byte] + length [0x01, 0x00::byte])) 2 = Inr [4, 0]"
    by (simp add: to_bytes_little_2)
  from send_command_out [OF this, of s]
  show ?thesis by (auto simp: enable_configuration_def COMMAND_HEADER_def COMMAND_TAIL_def)
qed

lemma end_configuration_out:
  "\<exists>ok s'. end_configuration s = Inr (ok, s') \<and>
     serial_out s' = serial_out s @ [END_CONFIGURATION_FRAME]
     \<and> readings_buffer s' = readings_buffer s \<and> max_buffer_size s' = max_buffer_size s
     \<and> engineering_mode s' = engineering_mode s"
  using send_word_out [of "0xFE" "0x00" s]
  by (auto simp: end_configuration_def END_CONFIGURATION_FRAME_def)

lemma session_opened_iff:
  "enable_configuration s = Inr (ok, s1) \<Longrightarrow> session_opened s = ok"
  by (simp add: session_opened_def)

lemma enable_engineering_mode_closes:
  "\<exists>ok s'. enable_engineering_mode s = Inr (ok, s') \<and>
     closes_issued s s' = (if session_opened s then 1 else 0) \<and>
     (session_opened s \<longrightarrow> last (serial_out s') = END_CONFIGURATION_FRAME)"
proof -
  obtain ok s1 where e: "enable_configuration s = Inr (ok, s1)"
    and o1: "serial_out s1 = serial_out s @ [[0xFD, 0xFC, 0xFB, 0xFA, 0x04, 0x00, 0xFF, 0x00, 0x01, 0x00, 0x04, 0x03, 0x02, 0x01]]"
    using enable_configuration_out [of s] by blast
  note so = session_opened_iff [OF e]
  show ?thesis
  proof (cases ok)
    case False
    with e o1 so show ?thesis
      by (auto simp: enable_engineering_mode_def closes_issued_def END_CONFIGURATION_FRAME_def)
  next
    case True
    obtain resp s2 where c: "send_command [0x62, 0x00] [] s1 = Inr (resp, s2)"
      and o2: "serial_out s2 = serial_out s1 @ [[0xFD, 0xFC, 0xFB, 0xFA, 0x02, 0x00, 0x62, 0x00, 0x04, 0x03, 0x02, 0x01]]"
      using send_word_out [of "0x62" "0x00" s1] by blast
    define s3 where "s3 = (if from_bytes_little (slice 8 10 resp) = 0 then s2\<lparr>engineering_mode := True\<rparr> else s2)"
    have o3: "serial_out s3 = serial_out s2" by (simp add: s3_def)
    obtain ok2 s4 where x2: "end_configuration s2 = Inr (ok2, s4)"
      and o4: "serial_out s4 = serial_out s2 @ [END_CONFIGURATION_FRAME]"
      using end_configuration_out [of s2] by blast
    obtain ok3 s5 where x3: "end_configuration s3 = Inr (ok3, s5)"
      and o5: "serial_out s5 = serial_out s3 @ [END_CONFIGURATION_FRAME]"
      using end_configuration_out [of s3] by blast
    have r: "enable_engineering_mode s =
       (if length resp < 12 then Inr (False, s4) else Inr (from_bytes_little (slice 8 10 resp) = 0, s5))"
      using True e c x2 x3 by (simp add: enable_engineering_mode_def Let_def s3_def [symmetric])
    have c4: "closes_issued s s4 = 1" and c5: "closes_issued s s5 = 1"
      using o1 o2 o3 o4 o5 by (simp_all add: closes_issued_def END_CONFIGURATION_FRAME_def)
    show ?thesis using r c4 c5 o4 o5 so True by auto
  qed
qed

lemma disable_engineering_mode_closes:
  "\<exists>ok s'. disable_engineering_mode s = Inr (ok, s') \<and>
     closes_issued s s' = (if session_opened s then 1 else 0) \<and>
     (session_opened s \<longrightarrow> last (serial_out s') = END_CONFIGURATION_FRAME)"
proof -
  obtain ok s1 where e: "enable_configuration s = Inr (ok, s1)"
    and o1: "serial_out s1 = serial_out s @ [[0xFD, 0xFC, 0xFB, 0xFA, 0x04, 0x00, 0xFF, 0x00, 0x01, 0x00, 0x04, 0x03, 0x02, 0x01]]"
    using enable_configuration_out [of s] by blast
  note so = session_opened_iff [OF e]
  show ?thesis
  proof (cases ok)
    case False
    with e o1 so show ?thesis
      by (auto simp: disable_engineering_mode_def closes_issued_def END_CONFIGURATION_FRAME_def)
  next
    case True
    define s2 where "s2 = serial_write (COMMAND_HEADER @ [2, 0] @ [0x63, 0x00] @ COMMAND_TAIL) s1"
    obtain resp s3 where rd: "serial_read_until None s2 = (resp, s3)" by (cases "serial_read_until None s2")
    have o3: "serial_out s3 = serial_out s1 @ [[0xFD, 0xFC, 0xFB, 0xFA, 0x02, 0x00, 0x63, 0x00, 0x04, 0x03, 0x02, 0x01]]"
      using rd by (auto simp: s2_def serial_write_def serial_read_until_def COMMAND_HEADER_def
            COMMAND_TAIL_def split: list.splits)
    define s4 where "s4 = (if from_bytes_little (slice 8 10 resp) = 0 then s3\<lparr>engineering_mode := False\<rparr> else s3)"
    have o4: "serial_out s4 = serial_out s3" by (simp add: s4_def)
    obtain ok5 s5 where x5: "end_configuration s4 = Inr (ok5, s5)"
      and o5: "serial_out s5 = serial_out s4 @ [END_CONFIGURATION_FRAME]"
      using end_configuration_out [of s4] by blast
    have r: "disable_engineering_mode s = Inr (from_bytes_little (slice 8 10 resp) = 0, s5)"
      using True e rd [unfolded s2_def] x5 [unfolded s4_def]
      by (simp add: disable_engineering_mode_def to_bytes_little_2 Let_def)
    have c5: "closes_issued s s5 = 1"
      using o1 o3 o4 o5 by (simp add: closes_issued_def END_CONFIGURATION_FRAME_def)
    show ?thesis using r c5 o5 so True by auto
  qed
qed

lemma backup_settings_closes:
  "\<exists>ok c'. backup_settings c = Inr (ok, c') \<and>
     closes_issued (radar c) (radar c') = (if session_opened (radar c) then 1 else 0) \<and>
     (session_opened (radar c) \<longrightarrow> last (serial_out (radar c')) = END_CONFIGURATION_FRAME)"
proof -
  obtain ok s1 where e: "enable_configuration (radar c) = Inr (ok, s1)"
    and o1: "serial_out s1 = serial_out (radar c) @ [[0xFD, 0xFC, 0xFB, 0xFA, 0x04, 0x00, 0xFF, 0x00, 0x01, 0x00, 0x04, 0x03, 0x02, 0x01]]"
    using enable_configuration_out [of "radar c"] by blast
  note so = session_opened_iff [OF e]
  show ?thesis
  proof (cases ok)
    case False
    with e o1 so show ?thesis
      by (auto simp: backup_settings_def closes_issued_def END_CONFIGURATION_FRAME_def)
  next
    case True
    obtain resp s2 where c: "send_command [0x61, 0x00] [] s1 = Inr (resp, s2)"
      and o2: "serial_out s2 = serial_out s1 @ [[0xFD, 0xFC, 0xFB, 0xFA, 0x02, 0x00, 0x61, 0x00, 0x04, 0x03, 0x02, 0x01]]"
      using send_word_out [of "0x61" "0x00" s1] by blast
    obtain ok3 s3 where x3: "end_configuration s2 = Inr (ok3, s3)"
      and o3: "serial_out s3 = serial_out s2 @ [END_CONFIGURATION_FRAME]"
      using end_configuration_out [of s2] by blast
    have r: "\<exists>ok c'. backup_settings c = Inr (ok, c') \<and> radar c' = s3"
      using True e c x3 by (simp add: backup_settings_def Let_def)
    have c3: "closes_issued (radar c) s3 = 1"
      using o1 o2 o3 by (simp add: closes_issued_def END_CONFIGURATION_FRAME_def)
    show ?thesis using r c3 o3 so True by auto
  qed
qed

lemma restore_factory_defaults_closes:
  "\<exists>ok c'. restore_factory_defaults c = Inr (ok, c') \<and>
     closes_issued (radar c) (radar c') = (if session_opened (radar c) then 1 else 0) \<and>
     (session_opened (radar c) \<longrightarrow> last (serial_out (radar c')) = END_CONFIGURATION_FRAME)"
proof -
  obtain ok s1 where e: "enable_configuration (radar c) = Inr (ok, s1)"
    and o1: "serial_out s1 = serial_out (radar c) @ [[0xFD, 0xFC, 0xFB, 0xFA, 0x04, 0x00, 0xFF, 0x00, 0x01, 0x00, 0x04, 0x03, 0x02, 0x01]]"
    using enable_configuration_out [of "radar c"] by blast
  note so = session_opened_iff [OF e]
  show ?thesis
  proof (cases ok)
    case False
    with e o1 so show ?thesis
      by (auto simp: restore_factory_defaults_def closes_issued_def END_CONFIGURATION_FRAME_def)
  next
    case True
    obtain resp s2 where c: "send_command [0xA2, 0x00] [] s1 = Inr (resp, s2)"
      and o2: "serial_out s2 = serial_out s1 @ [[0xFD, 0xFC, 0xFB, 0xFA, 0x02, 0x00, 0xA2, 0x00, 0x04, 0x03, 0x02, 0x01]]"
      using send_word_out [of "0xA2" "0x00" s1] by blast
    obtain resp3 s3 where c3: "send_command [0xA3, 0x00] [] s2 = Inr (resp3, s3)"
      and o3: "serial_out s3 = serial_out s2 @ [[0xFD, 0xFC, 0xFB, 0xFA, 0x02, 0x00, 0xA3, 0x00, 0x04, 0x03, 0x02, 0x01]]"
      using send_word_out [of "0xA3" "0x00" s2] by blast
    obtain ok4 s4 where x4: "end_configuration s2 = Inr (ok4, s4)"
      and o4: "serial_out s4 = serial_out s2 @ [END_CONFIGURATION_FRAME]"
      using end_configuration_out [of s2] by blast
    obtain ok5 s5 where x5: "end_configuration s3 = Inr (ok5, s5)"
      and o5: "serial_out s5 = serial_out s3 @ [END_CONFIGURATION_FRAME]"
      using end_configuration_out [of s3] by blast
    have r: "\<exists>ok c'. restore_factory_defaults c = Inr (ok, c') \<and> (radar c' = s4 \<or> radar c' = s5)"
      using True e c c3 x4 x5 by (auto simp: restore_factory_defaults_def Let_def)
    have c4: "closes_issued (radar c) s4 = 1" and c5: "closes_issued (radar c) s5 = 1"
      using o1 o2 o3 o4 o5 by (simp_all add: closes_issued_def END_CONFIGURATION_FRAME_def)
    show ?thesis using r c4 c5 o4 o5 so True by auto
  qed
qed

lemma configure_closes:
  assumes e: "enable_configuration (radar c) = Inr (True, s1)"
    and o1: "serial_out s1 = serial_out (radar c) @ [[0xFD, 0xFC, 0xFB, 0xFA, 0x04, 0x00, 0xFF, 0x00, 0x01, 0x00, 0x04, 0x03, 0x02, 0x01]]"
    and len: "length val = 18"
  shows "\<exists>resp s2 ok3 s3. send_command [b, 0x00] val s1 = Inr (resp, s2) \<and>
           end_configuration s2 = Inr (ok3, s3) \<and> closes_issued (radar c) s3 = 1 \<and>
           last (serial_out s3) = END_CONFIGURATION_FRAME"
proof -
  have "to_bytes_little (int (length [b, 0x00] + length val)) 2 = Inr [20, 0]"
    using len by (simp add: to_bytes_little_2)
  from send_command_out [OF this, of s1]
  obtain resp s2 where c: "send_command [b, 0x00] val s1 = Inr (resp, s2)"
      and o2: "serial_out s2 = serial_out s1 @ [COMMAND_HEADER @ [20, 0] @ [b, 0x00] @ val @ COMMAND_TAIL]"
    by blast
  obtain ok3 s3 where x3: "end_configuration s2 = Inr (ok3, s3)"
      and o3: "serial_out s3 = serial_out s2 @ [END_CONFIGURATION_FRAME]"
      using end_configuration_out [of s2] by blast
  have "closes_issued (radar c) s3 = 1"
    using o1 o2 o3 by (simp add: closes_issued_def END_CONFIGURATION_FRAME_def COMMAND_HEADER_def)
  with c x3 o3 show ?thesis by simp
qed

lemma configure_detection_gates_closes:
  "\<exists>ok c'. configure_detection_gates mg sg c = Inr (ok, c') \<and>
     closes_issued (radar c) (radar c') =
       (if accepts_arguments (ConfigureDetectionGates mg sg) \<and> session_opened (radar c) then 1 else 0) \<and>
     (accepts_arguments (ConfigureDetectionGates mg sg) \<and> session_opened (radar c)
        \<longrightarrow> last (serial_out (radar c')) = END_CONFIGURATION_FRAME)"
proof (cases "accepts_arguments (ConfigureDetectionGates mg sg)")
  case False
  then show ?thesis by (auto simp: configure_detection_gates_def closes_issued_def)
next
  case acc: True
  obtain ok s1 where e: "enable_configuration (radar c) = Inr (ok, s1)"
    and o1: "serial_out s1 = serial_out (radar c) @ [[0xFD, 0xFC, 0xFB, 0xFA, 0x04, 0x00, 0xFF, 0x00, 0x01, 0x00, 0x04, 0x03, 0x02, 0x01]]"
    using enable_configuration_out [of "radar c"] by blast
  note so = session_opened_iff [OF e]
  show ?thesis
  proof (cases ok)
    case False
    with e o1 so acc show ?thesis
      by (auto simp: configure_detection_gates_def closes_issued_def END_CONFIGURATION_FRAME_def)
  next
    case True
    define val :: bytes where "val = [0x00, 0x00] @ [word_of_int mg, word_of_int (mg div 256), word_of_int (mg div 65536),
                word_of_int (mg div 16777216)] @ [0x01, 0x00] @ [word_of_int sg, word_of_int (sg div 256), word_of_int (sg div 65536),
                word_of_int (sg div 16777216)] @ [0x02, 0x00] @ [5, 0, 0, 0]"
    have len: "length val = 18" by (simp add: val_def)
    have e1: "enable_configuration (radar c) = Inr (True, s1)" using e True by simp
    from configure_closes [OF e1 o1 len, of "0x60"]
    obtain resp s2 ok3 s3 where c: "send_command [0x60, 0x00] val s1 = Inr (resp, s2)"
      and x3: "end_configuration s2 = Inr (ok3, s3)" and c3: "closes_issued (radar c) s3 = 1"
      and l3: "last (serial_out s3) = END_CONFIGURATION_FRAME"
      by auto
    have r: "\<exists>ok c'. configure_detection_gates mg sg c = Inr (ok, c') \<and> radar c' = s3"
      using True e acc c [unfolded val_def] x3
      by (simp add: configure_detection_gates_def to_bytes_little_4 Let_def)
    show ?thesis using r c3 l3 so True acc by auto
  qed
qed

lemma configure_sensitivity_closes:
  "\<exists>ok c'. configure_sensitivity g ms ss c = Inr (ok, c') \<and>
     closes_issued (radar c) (radar c') =
       (if accepts_arguments (ConfigureSensitivity g ms ss) \<and> session_opened (radar c) then 1 else 0) \<and>
     (accepts_arguments (ConfigureSensitivity g ms ss) \<and> session_opened (radar c)
        \<longrightarrow> last (serial_out (radar c')) = END_CONFIGURATION_FRAME)"
proof (cases "accepts_arguments (ConfigureSensitivity g ms ss)")
  case False
  then show ?thesis by (auto simp: configure_sensitivity_def closes_issued_def)
next
  case acc: True
  obtain ok s1 where e: "enable_configuration (radar c) = Inr (ok, s1)"
    and o1: "serial_out s1 = serial_out (radar c) @ [[0xFD, 0xFC, 0xFB, 0xFA, 0x04, 0x00, 0xFF, 0x00, 0x01, 0x00, 0x04, 0x03, 0x02, 0x01]]"
    using enable_configuration_out [of "radar c"] by blast
  note so = session_opened_iff [OF e]
  show ?thesis
  proof (cases ok)
    case False
    with e o1 so acc show ?thesis
      by (auto simp: configure_sensitivity_def closes_issued_def END_CONFIGURATION_FRAME_def)
  next
    case True
    define val :: bytes where "val = [0x00, 0x00] @ [word_of_int g, word_of_int (g div 256), word_of_int (g div 65536),
                word_of_int (g div 16777216)] @ [0x01, 0x00] @ [word_of_int ms, word_of_int (ms div 256), word_of_int (ms div 65536),
                word_of_int (ms div 16777216)] @ [0x02, 0x00] @ [word_of_int ss, word_of_int (ss div 256), word_of_int (ss div 65536),
                word_of_int (ss div 16777216)]"
    have len: "length val = 18" by (simp add: val_def)
    have e1: "enable_configuration (radar c) = Inr (True, s1)" using e True by simp
    from configure_closes [OF e1 o1 len, of "0x64"]
    obtain resp s2 ok3 s3 where c: "send_command [0x64, 0x00] val s1 = Inr (resp, s2)"
      and x3: "end_configuration s2 = Inr (ok3, s3)" and c3: "closes_issued (radar c) s3 = 1"
      and l3: "last (serial_out s3) = END_CONFIGURATION_FRAME"
      by auto
    have r: "\<exists>ok c'. configure_sensitivity g ms ss c = Inr (ok, c') \<and> radar c' = s3"
      using True e acc c [unfolded val_def] x3
      by (simp add: configure_sensitivity_def to_bytes_little_4 Let_def)
    show ?thesis using r c3 l3 so True acc by auto
  qed
qed

subsection \<open>The gate loops\<close>

lemma gate_loop_upt:
  "gate_loop eng offset [k..<k + n] acc = acc @ take n (drop (offset + k) eng)"
proof (induction n arbitrary: k acc)
  case 0
  then show ?case by simp
next
  case (Suc n)
  have "[k..<k + Suc n] = k # [Suc k..<Suc k + n]" by (simp add: upt_rec)
  then have "gate_loop eng offset [k..<k + Suc n] acc =
      gate_loop eng offset [Suc k..<Suc k + n]
        (if offset + k < length eng then acc @ [eng ! (offset + k)] else acc)" by simp
  also have "\<dots> = (if offset + k < length eng then acc @ [eng ! (offset + k)] else acc)
        @ take n (drop (offset + Suc k) eng)" by (rule Suc.IH)
  also have "\<dots> = acc @ take (Suc n) (drop (offset + k) eng)"
  proof (cases "offset + k < length eng")
    case True
    then have "drop (offset + k) eng = eng ! (offset + k) # drop (Suc (offset + k)) eng"
      by (simp add: Cons_nth_drop_Suc)
    with True show ?thesis by simp
  next
    case False
    then show ?thesis by simp
  qed
  finally show ?case .
qed

lemma gate_loop_range:
  "gate_loop eng offset [0..<n] [] = take n (drop offset eng)"
  using gate_loop_upt [of eng offset 0 n "[]"] by simp

lemma parse_engineering_eq:
  "parse_engineering eng_data =
     (if length eng_data < 2 then Inl IndexError
      else Inr \<lparr>max_moving_distance_gate = eng_data ! 0,
                max_static_distance_gate = eng_data ! 1,
                moving_energy_gates = take (unat (eng_data ! 0) + 1) (drop 2 eng_data),
                static_energy_gates =
                  take (unat (eng_data ! 1) + 1)
                    (drop (2 + (unat (eng_data ! 0) + 1)) eng_data)\<rparr>)"
  unfolding parse_engineering_def index_def Let_def gate_loop_range
  by (cases eng_data) auto

lemma take_take_drop:
  "take m (drop k xs) @ take n (drop (k + m) xs) = take (m + n) (drop k xs)"
proof -
  have "take (m + n) (drop k xs) = take m (drop k xs) @ take n (drop m (drop k xs))"
    by (rule take_add)
  also have "drop m (drop k xs) = drop (k + m) xs" by (simp add: add.commute)
  finally show ?thesis by simp
qed

subsection \<open>True division of ints\<close>






























subsection \<open>Bounded queues\<close>

lemma deque_append_last:
  "deque_append n (drop (length ys - n) ys) x = drop (length (ys @ [x]) - n) (ys @ [x])"
proof (cases "length ys < n")
  case True
  then show ?thesis by (simp add: deque_append_def Let_def)
next
  case False
  then have k: "length ys - n \<le> length ys" and l: "length (drop (length ys - n) ys) = n"
    and s: "length (ys @ [x]) - n = Suc (length ys - n)"
    by simp_all
  have "deque_append n (drop (length ys - n) ys) x = tl (drop (length ys - n) ys @ [x])"
    using l by (simp add: deque_append_def Let_def)
  also have "drop (length ys - n) ys @ [x] = drop (length ys - n) (ys @ [x])"
    using k by simp
  also have "tl (drop (length ys - n) (ys @ [x])) = drop (Suc (length ys - n)) (ys @ [x])"
    by (simp only: drop_Suc tl_drop)
  finally show ?thesis by (simp only: s)
qed


lemma buffer_push:
  "length buf \<le> n \<Longrightarrow>
   (if n < length (buf @ [r]) then tl (buf @ [r]) else buf @ [r])
     = drop (length (buf @ [r]) - n) (buf @ [r])"
  using deque_append_last [of n buf r] by (simp add: deque_append_def Let_def)

lemma drop_last_twice:
  "drop (length (drop (length xs - n) xs @ ys) - n) (drop (length xs - n) xs @ ys)
     = drop (length (xs @ ys) - n) (xs @ ys)"
  by (cases "length xs \<le> n") (auto simp: add.commute)

subsection \<open>The report decoder\<close>

lemma read_frame_step:
  assumes "read_frame s = (res, s')"
  shows "max_buffer_size s' = max_buffer_size s \<and> engineering_mode s' = engineering_mode s \<and>
         serial_out s' = serial_out s \<and> serial_in s' = tl (serial_in s) \<and>
         (case res of
            None \<Rightarrow> readings_buffer s' = readings_buffer s
          | Some r \<Rightarrow> is_valid r \<and>
              readings_buffer s' =
                (if max_buffer_size s < length (readings_buffer s @ [r])
                 then tl (readings_buffer s @ [r]) else readings_buffer s @ [r]))"
  using assms
  by (auto simp: read_frame_def serial_read_until_def Let_def
        split: list.splits sum.splits option.splits if_splits)

lemma read_frame_invariant:
  assumes rf: "read_frame s = (res, s')"
    and len: "length (readings_buffer s) \<le> max_buffer_size s"
  shows "readings_buffer s' =
           drop (length (readings_buffer s @ yielded [res]) - max_buffer_size s)
             (readings_buffer s @ yielded [res])"
    and "\<forall>r \<in> set (yielded [res]). is_valid r"
    and "max_buffer_size s' = max_buffer_size s"
proof -
  note st = read_frame_step [OF rf]
  show "max_buffer_size s' = max_buffer_size s" using st by simp
  show "\<forall>r \<in> set (yielded [res]). is_valid r" using st by (cases res) simp_all
  show "readings_buffer s' =
           drop (length (readings_buffer s @ yielded [res]) - max_buffer_size s)
             (readings_buffer s @ yielded [res])"
  proof (cases res)
    case None
    with st len show ?thesis by simp
  next
    case (Some r)
    with st have "readings_buffer s' =
        (if max_buffer_size s < length (readings_buffer s @ [r])
         then tl (readings_buffer s @ [r]) else readings_buffer s @ [r])" by simp
    also have "\<dots> = drop (length (readings_buffer s @ [r]) - max_buffer_size s)
                      (readings_buffer s @ [r])"
      by (rule buffer_push [OF len])
    finally show ?thesis using Some by simp
  qed
qed

lemma yielded_Cons: "yielded (r # rs) = yielded [r] @ yielded rs"
  by (cases r) simp_all

lemma read_frames_invariant:
  assumes "read_frames n s = (results, s')"
    and "length (readings_buffer s) \<le> max_buffer_size s"
  shows "readings_buffer s' =
           drop (length (readings_buffer s @ yielded results) - max_buffer_size s)
             (readings_buffer s @ yielded results)
         \<and> (\<forall>r \<in> set (yielded results). is_valid r)
         \<and> max_buffer_size s' = max_buffer_size s \<and> length results = n"
  using assms
proof (induction n arbitrary: s results s')
  case 0
  then show ?case by simp
next
  case (Suc n)
  obtain r s1 where rf: "read_frame s = (r, s1)" by (cases "read_frame s")
  obtain rs s2 where rfs: "read_frames n s1 = (rs, s2)" by (cases "read_frames n s1")
  from Suc.prems(1) rf rfs have res: "results = r # rs" and s2: "s' = s2" by simp_all
  note one = read_frame_invariant [OF rf Suc.prems(2)]
  have len1: "length (readings_buffer s1) \<le> max_buffer_size s1"
    using one(1) one(3) by simp
  note ih = Suc.IH [OF rfs len1]
  let ?m = "max_buffer_size s" and ?b = "readings_buffer s"
  have "readings_buffer s2 =
      drop (length (drop (length (?b @ yielded [r]) - ?m) (?b @ yielded [r]) @ yielded rs) - ?m)
        (drop (length (?b @ yielded [r]) - ?m) (?b @ yielded [r]) @ yielded rs)"
    using ih one(1) one(3) by simp
  also have "\<dots> = drop (length ((?b @ yielded [r]) @ yielded rs) - ?m)
                    ((?b @ yielded [r]) @ yielded rs)"
    by (rule drop_last_twice)
  also have "(?b @ yielded [r]) @ yielded rs = ?b @ yielded results"
    using yielded_Cons [of r rs] res by simp
  finally have b: "readings_buffer s' =
      drop (length (?b @ yielded results) - ?m) (?b @ yielded results)" using s2 by simp
  have v: "\<forall>x \<in> set (yielded results). is_valid x"
    using ih one(2) yielded_Cons [of r rs] res by auto
  from b v ih one(3) res s2 show ?case by simp
qed

lemma read_frame_result:
  "fst (read_frame s) = valid_reading (engineering_mode s) (hd (lines_read 1 (serial_in s)))"
  by (cases "serial_in s")
     (auto simp: read_frame_def serial_read_until_def valid_reading_def Let_def
        split: sum.splits option.splits)

lemma read_frames_results:
  "fst (read_frames n s) = map (valid_reading (engineering_mode s)) (lines_read n (serial_in s))"
proof (induction n arbitrary: s)
  case 0
  show ?case by simp
next
  case (Suc n)
  obtain r s1 where rf: "read_frame s = (r, s1)" by (cases "read_frame s")
  note st = read_frame_step [OF rf]
  have r: "r = valid_reading (engineering_mode s) (hd (lines_read 1 (serial_in s)))"
    using read_frame_result [of s] rf by simp
  have l: "lines_read (Suc n) (serial_in s)
      = hd (lines_read 1 (serial_in s)) # lines_read n (tl (serial_in s))"
    by (cases "serial_in s") simp_all
  have "fst (read_frames (Suc n) s) = r # fst (read_frames n s1)"
    using rf by (simp split: prod.splits)
  also have "fst (read_frames n s1)
      = map (valid_reading (engineering_mode s)) (lines_read n (tl (serial_in s)))"
    using Suc.IH [of s1] st by simp
  finally show ?case using r l by simp
qed

lemma decode_static_frame:
  "decode_frame e static_frame =
     Inr (Some (mk_reading STATIC_TARGET 50 40 30\<lparr>moving_target_distance := 30,
                  static_target_distance := 30\<rparr>))"
  by (simp add: decode_frame_def slice_def slice_from_end_def REPORT_HEADER_def
        REPORT_TAIL_def parse_target_state_def from_bytes_little_signed_def
        static_frame_def mk_reading_def)

lemma decode_far_frame:
  "decode_frame e far_frame =
     Inr (Some (mk_reading STATIC_TARGET 50 40 601\<lparr>moving_target_distance := 30,
                  static_target_distance := 30\<rparr>))"
  by (simp add: decode_frame_def slice_def slice_from_end_def REPORT_HEADER_def
        REPORT_TAIL_def parse_target_state_def from_bytes_little_signed_def
        far_frame_def mk_reading_def)

lemma read_frame_gate:
  assumes "hd (lines_read 1 (serial_in s)) = line"
    and "decode_frame (engineering_mode s) line = Inr (Some r)"
  shows "is_valid r \<Longrightarrow> fst (read_frame s) = Some r
            \<and> readings_buffer (snd (read_frame s)) =
                (if max_buffer_size s < length (readings_buffer s @ [r])
                 then tl (readings_buffer s @ [r]) else readings_buffer s @ [r])"
    and "\<not> is_valid r \<Longrightarrow> fst (read_frame s) = None
            \<and> readings_buffer (snd (read_frame s)) = readings_buffer s"
  using assms
  by (cases "serial_in s"; simp add: read_frame_def serial_read_until_def Let_def)+

subsection \<open>The sensitivity sweep\<close>

lemma pick_best_Cons:
  "pick_best (x # rest) best = (if snd best < snd x then pick_best rest x else pick_best rest best)"
  by (cases x; cases best) simp

lemma pick_best_keep:
  "\<forall>x \<in> set tr. snd x \<le> snd best \<Longrightarrow> pick_best tr best = best"
  by (induction tr arbitrary: best) (auto simp: pick_best_Cons)


lemma configure_all_gates:
  "configure_sensitivity 0xFF ms ss c = Inr (False, c)"
  by (simp add: configure_sensitivity_def)


lemma sweep_loop_trace:
  "samples \<noteq> 0 \<Longrightarrow>
   \<exists>c'. sweep_loop xs samples c best = Inr (pick_best (sweep_trace xs samples c) best, c')"
proof (induction xs arbitrary: c best)
  case Nil
  then show ?case by simp
next
  case (Cons x xs)
  obtain bs br where b: "best = (bs, br)" by (cases best)
  obtain d r1 where sl: "sample_loop (nat samples) (radar c) 0 = (d, r1)"
    by (cases "sample_loop (nat samples) (radar c) 0")
  show ?case
  proof (cases "br < real d / real_of_int samples")
    case True
    with Cons.IH [OF Cons.prems, of "c\<lparr>radar := r1\<rparr>" "(x, real d / real_of_int samples)"]
      Cons.prems show ?thesis
      by (simp add: b sl configure_all_gates)
  next
    case False
    with Cons.IH [OF Cons.prems, of "c\<lparr>radar := r1\<rparr>" "(bs, br)"]
      Cons.prems show ?thesis
      by (simp add: b sl configure_all_gates)
  qed
qed


lemma sweep_loop_zero:
  "sweep_loop xs 0 c best = (if xs = [] then Inr (best, c) else Inl ZeroDivisionError)"
  by (cases xs; cases best) (simp_all add: configure_all_gates split: prod.splits)


lemma py_range_set:
  "set (py_range lo (hi + 1) 5) = {s. lo \<le> s \<and> s \<le> hi \<and> (s - lo) mod 5 = 0}"
proof (intro set_eqI iffI)
  fix s assume "s \<in> set (py_range lo (hi + 1) 5)"
  then obtain k where k: "k < nat ((hi + 1 - lo + 5 - 1) div 5)" and s: "s = lo + 5 * int k"
    by (auto simp: py_range_def)
  from k have "int k < (hi - lo + 5) div 5" by simp
  then have "5 * int k \<le> hi - lo" by presburger
  with s show "s \<in> {s. lo \<le> s \<and> s \<le> hi \<and> (s - lo) mod 5 = 0}" by simp
next
  fix s assume "s \<in> {s. lo \<le> s \<and> s \<le> hi \<and> (s - lo) mod 5 = 0}"
  then have a: "lo \<le> s" "s \<le> hi" "(s - lo) mod 5 = 0" by simp_all
  define k where "k = nat ((s - lo) div 5)"
  have s: "s = lo + 5 * int k" using a by (simp add: k_def) presburger
  have "(s - lo) div 5 < (hi - lo + 5) div 5" using a by presburger
  then have "k < nat ((hi + 1 - lo + 5 - 1) div 5)" using a by (simp add: k_def)
  with s show "s \<in> set (py_range lo (hi + 1) 5)" by (auto simp: py_range_def)
qed


lemma find_optimal_as_pick:
  "samples \<noteq> 0 \<Longrightarrow>
   \<exists>c'. find_optimal_sensitivity d lo hi samples c =
     Inr (pick_best (sweep_trace (py_range lo (hi + 1) 5) samples c) (0, 0), c')"
  unfolding find_optimal_sensitivity_def by (rule sweep_loop_trace)




section \<open>The command protocol\<close>

text \<open>
  C1. The specification states that \<^verbatim>\<open>set_sensitivity\<close> accepts the ALL-gates selector 0xFF, as the
  sensitivity sweep passes it on every round, and that it goes on to open a configuration
  session and to encode the selector and the two sensitivities. In the code the range check
  \<^verbatim>\<open>0 <= gate <= 8\<close> of \<^verbatim>\<open>configure_sensitivity\<close> rejects 0xFF: for every pair of
  sensitivities and every state the call returns \<^verbatim>\<open>False\<close> and leaves the state as it
  was, so no frame is written, while gate 3 with the same sensitivities is sent.
\<close>

theorem configure_sensitivity_rejects_all_gates:
  "configure_sensitivity 0xFF motion_sensitivity static_sensitivity c = Inr (False, c)
   \<and> (\<exists>c'. configure_sensitivity 3 50 50 (RadarCalibrator_init [ack_enter, ack_enter, ack_enter])
              = Inr (True, c')
            \<and> serial_out (radar c') =
                [[0xFD, 0xFC, 0xFB, 0xFA, 0x04, 0x00, 0xFF, 0x00, 0x01, 0x00,
                  0x04, 0x03, 0x02, 0x01],
                 [0xFD, 0xFC, 0xFB, 0xFA, 0x14, 0x00, 0x64, 0x00,
                  0x00, 0x00, 0x03, 0x00, 0x00, 0x00,
                  0x01, 0x00, 0x32, 0x00, 0x00, 0x00,
                  0x02, 0x00, 0x32, 0x00, 0x00, 0x00,
                  0x04, 0x03, 0x02, 0x01],
                 [0xFD, 0xFC, 0xFB, 0xFA, 0x02, 0x00, 0xFE, 0x00, 0x04, 0x03, 0x02, 0x01]])"
proof -
  have "configure_sensitivity 0xFF motion_sensitivity static_sensitivity c = Inr (False, c)"
    by (simp add: configure_sensitivity_def)
  moreover have "\<exists>c'. configure_sensitivity 3 50 50
                        (RadarCalibrator_init [ack_enter, ack_enter, ack_enter])
              = Inr (True, c')
            \<and> serial_out (radar c') =
                [[0xFD, 0xFC, 0xFB, 0xFA, 0x04, 0x00, 0xFF, 0x00, 0x01, 0x00,
                  0x04, 0x03, 0x02, 0x01],
                 [0xFD, 0xFC, 0xFB, 0xFA, 0x14, 0x00, 0x64, 0x00,
                  0x00, 0x00, 0x03, 0x00, 0x00, 0x00,
                  0x01, 0x00, 0x32, 0x00, 0x00, 0x00,
                  0x02, 0x00, 0x32, 0x00, 0x00, 0x00,
                  0x04, 0x03, 0x02, 0x01],
                 [0xFD, 0xFC, 0xFB, 0xFA, 0x02, 0x00, 0xFE, 0x00, 0x04, 0x03, 0x02, 0x01]]"
    by (simp add: configure_sensitivity_def enable_configuration_def end_configuration_def
          send_command_def to_bytes_little_2 to_bytes_little_4 serial_write_def
          serial_read_until_def slice_def COMMAND_HEADER_def COMMAND_TAIL_def
          RadarHandler_init_def RadarCalibrator_init_def ack_enter_def)
  ultimately show ?thesis by blast
qed

text \<open>
  C2. The specification states that every command operation, disabling engineering mode
  included, returns failure and leaves the engineering-mode flag alone when the transport times
  out, the response is shorter than 12 bytes or the status field is not zero.
  \<^verbatim>\<open>disable_engineering_mode\<close> reads the reply itself and never checks its length: the
  slice \<^verbatim>\<open>response[8:10]\<close> of a reply that timed out is empty, and
  \<^verbatim>\<open>int.from_bytes\<close> of the empty byte string is 0. With engineering mode on, the
  session opened and no byte in reply to the disable command, the operation returns
  \<^verbatim>\<open>True\<close> and clears the flag.
\<close>

theorem disable_engineering_mode_timeout:
  "disable_engineering_mode ((RadarHandler_init [ack_enter, []])\<lparr>engineering_mode := True\<rparr>)
     = Inr (True,
         \<lparr>serial_in = [],
          serial_out =
            [[0xFD, 0xFC, 0xFB, 0xFA, 0x04, 0x00, 0xFF, 0x00, 0x01, 0x00, 0x04, 0x03, 0x02, 0x01],
             [0xFD, 0xFC, 0xFB, 0xFA, 0x02, 0x00, 0x63, 0x00, 0x04, 0x03, 0x02, 0x01],
             [0xFD, 0xFC, 0xFB, 0xFA, 0x02, 0x00, 0xFE, 0x00, 0x04, 0x03, 0x02, 0x01]],
          readings_buffer = [], max_buffer_size = 1000, engineering_mode = False\<rparr>)"
  by (simp add: disable_engineering_mode_def enable_configuration_def end_configuration_def
        send_command_def to_bytes_little_2 serial_write_def serial_read_until_def slice_def
        COMMAND_HEADER_def COMMAND_TAIL_def RadarHandler_init_def ack_enter_def)

text \<open>The sibling \<^verbatim>\<open>enable_engineering_mode\<close> goes through \<^verbatim>\<open>send_command\<close> and
  checks the length: in the same situation it reports failure and leaves the flag.\<close>

lemma enable_engineering_mode_timeout:
  "enable_engineering_mode (RadarHandler_init [ack_enter, []])
     = Inr (False,
         \<lparr>serial_in = [],
          serial_out =
            [[0xFD, 0xFC, 0xFB, 0xFA, 0x04, 0x00, 0xFF, 0x00, 0x01, 0x00, 0x04, 0x03, 0x02, 0x01],
             [0xFD, 0xFC, 0xFB, 0xFA, 0x02, 0x00, 0x62, 0x00, 0x04, 0x03, 0x02, 0x01],
             [0xFD, 0xFC, 0xFB, 0xFA, 0x02, 0x00, 0xFE, 0x00, 0x04, 0x03, 0x02, 0x01]],
          readings_buffer = [], max_buffer_size = 1000, engineering_mode = False\<rparr>)"
  by (simp add: enable_engineering_mode_def enable_configuration_def end_configuration_def
        send_command_def to_bytes_little_2 serial_write_def serial_read_until_def slice_def
        COMMAND_HEADER_def COMMAND_TAIL_def RadarHandler_init_def ack_enter_def)

text \<open>
  C3 (amended). Every operation that brackets a command in a configuration session
  (enabling and disabling engineering mode, backup of the settings, factory reset, gate
  and sensitivity configuration) returns without raising, whatever the device answers.
  When its arguments pass the range check and the session-open command reports success,
  it writes the session-close frame exactly once, as the last frame, on every path that
  follows, the path of a command response shorter than 12 bytes included. When the
  arguments are rejected or the session-open command fails, it writes no session-close
  frame.
\<close>

theorem session_closed_once:
  "\<exists>ok c'. run_operation oper c = Inr (ok, c') \<and>
     closes_issued (radar c) (radar c') =
       (if accepts_arguments oper \<and> session_opened (radar c) then 1 else 0) \<and>
     (accepts_arguments oper \<and> session_opened (radar c)
        \<longrightarrow> last (serial_out (radar c')) = END_CONFIGURATION_FRAME)"
proof (cases oper)
  case EnableEngineeringMode
  with enable_engineering_mode_closes [of "radar c"] show ?thesis by auto
next
  case DisableEngineeringMode
  with disable_engineering_mode_closes [of "radar c"] show ?thesis by auto
next
  case BackupSettings
  with backup_settings_closes [of c] show ?thesis by simp
next
  case RestoreFactoryDefaults
  with restore_factory_defaults_closes [of c] show ?thesis by simp
next
  case (ConfigureDetectionGates mg sg)
  with configure_detection_gates_closes [of mg sg c] show ?thesis by simp
next
  case (ConfigureSensitivity g ms ss)
  with configure_sensitivity_closes [of g ms ss c] show ?thesis by simp
qed

theorem session_closed_once_witness:
  "accepts_arguments EnableEngineeringMode
   \<and> session_opened (radar (RadarCalibrator_init [ack_enter, [0xFD, 0xFC, 0xFB]]))
   \<and> (\<exists>c'. run_operation EnableEngineeringMode
               (RadarCalibrator_init [ack_enter, [0xFD, 0xFC, 0xFB]]) = Inr (False, c')
          \<and> closes_issued (radar (RadarCalibrator_init [ack_enter, [0xFD, 0xFC, 0xFB]]))
               (radar c') = 1
          \<and> last (serial_out (radar c')) = END_CONFIGURATION_FRAME)"
proof -
  let ?c = "RadarCalibrator_init [ack_enter, [0xFD, 0xFC, 0xFB]]"
  have so: "session_opened (radar ?c)"
    by (simp add: session_opened_def enable_configuration_def send_command_def
          to_bytes_little_2 serial_write_def serial_read_until_def slice_def
          COMMAND_HEADER_def COMMAND_TAIL_def RadarHandler_init_def RadarCalibrator_init_def
          ack_enter_def)
  have ok: "\<exists>c'. run_operation EnableEngineeringMode ?c = Inr (False, c')"
    by (simp add: enable_engineering_mode_def enable_configuration_def end_configuration_def
          send_command_def to_bytes_little_2 serial_write_def serial_read_until_def slice_def
          COMMAND_HEADER_def COMMAND_TAIL_def RadarHandler_init_def RadarCalibrator_init_def
          ack_enter_def)
  from session_closed_once [of EnableEngineeringMode ?c] so ok show ?thesis by auto
qed

text \<open>The specification asks for one session-close frame on every exit path.
  When the session-open command times out, \<^verbatim>\<open>enable_engineering_mode\<close> returns at once:
  the log holds the open frame only.\<close>

theorem enable_engineering_mode_no_close:
  "enable_engineering_mode (RadarHandler_init [])
     = Inr (False,
         \<lparr>serial_in = [],
          serial_out =
            [[0xFD, 0xFC, 0xFB, 0xFA, 0x04, 0x00, 0xFF, 0x00, 0x01, 0x00, 0x04, 0x03, 0x02, 0x01]],
          readings_buffer = [], max_buffer_size = 1000, engineering_mode = False\<rparr>)
   \<and> closes_issued (RadarHandler_init [])
        \<lparr>serial_in = [],
         serial_out =
           [[0xFD, 0xFC, 0xFB, 0xFA, 0x04, 0x00, 0xFF, 0x00, 0x01, 0x00, 0x04, 0x03, 0x02, 0x01]],
         readings_buffer = [], max_buffer_size = 1000, engineering_mode = False\<rparr> = 0"
  by (simp add: enable_engineering_mode_def enable_configuration_def send_command_def
        to_bytes_little_2 serial_write_def serial_read_until_def slice_def
        COMMAND_HEADER_def COMMAND_TAIL_def RadarHandler_init_def closes_issued_def
        END_CONFIGURATION_FRAME_def)

section \<open>Validity of a reading\<close>

text \<open>
  C4. \<^verbatim>\<open>is_valid()\<close> is false exactly when the detection distance is outside [0,600],
  or the moving or the static energy is outside [-100,100], or the state is UNKNOWN. It
  is true at the boundary values 0, 600, -100 and 100, and false at 601, -1, 101 and -101.
\<close>

theorem is_valid_iff:
  "(is_valid r = False) =
     (detection_distance r < 0 \<or> 600 < detection_distance r \<or>
      moving_target_energy r < -100 \<or> 100 < moving_target_energy r \<or>
      static_target_energy r < -100 \<or> 100 < static_target_energy r \<or>
      target_state r = UNKNOWN)
   \<and> is_valid (mk_reading NO_TARGET 0 0 0)
   \<and> is_valid (mk_reading NO_TARGET 0 0 600)
   \<and> is_valid (mk_reading MOVING_TARGET (-100) 100 0)
   \<and> is_valid (mk_reading STATIC_TARGET 100 (-100) 600)
   \<and> \<not> is_valid (mk_reading NO_TARGET 0 0 601)
   \<and> \<not> is_valid (mk_reading NO_TARGET 0 0 (-1))
   \<and> \<not> is_valid (mk_reading NO_TARGET 101 0 0)
   \<and> \<not> is_valid (mk_reading NO_TARGET 0 101 0)
   \<and> \<not> is_valid (mk_reading NO_TARGET (-101) 0 0)
   \<and> \<not> is_valid (mk_reading NO_TARGET 0 (-101) 0)
   \<and> \<not> is_valid (mk_reading UNKNOWN 0 0 0)"
  by (auto simp: is_valid_def mk_reading_def)

section \<open>The engineering payload\<close>

text \<open>
  C5. An engineering payload that holds its two gate counts decodes without raising,
  whatever follows them: the moving gates are the first \<open>max_moving_gate + 1\<close> of the
  bytes after the counts, or as many as are present, and the static gates are the next
  \<open>max_static_gate + 1\<close>, or as many as are present. Nothing is padded: the two
  sequences together are a prefix of the bytes present. A payload that declares
  \<open>max_moving_gate = 2\<close> and carries two bytes after the counts decodes to exactly those
  two moving-gate values and no static one.
\<close>

theorem parse_engineering_truncates:
  assumes "2 \<le> length eng_data"
  shows "(\<exists>d. parse_engineering eng_data = Inr d
      \<and> max_moving_distance_gate d = eng_data ! 0
      \<and> max_static_distance_gate d = eng_data ! 1
      \<and> moving_energy_gates d = take (unat (eng_data ! 0) + 1) (drop 2 eng_data)
      \<and> static_energy_gates d =
          take (unat (eng_data ! 1) + 1) (drop (2 + (unat (eng_data ! 0) + 1)) eng_data)
      \<and> length (moving_energy_gates d) = min (unat (eng_data ! 0) + 1) (length eng_data - 2)
      \<and> length (static_energy_gates d) =
          min (unat (eng_data ! 1) + 1) (length eng_data - 2 - (unat (eng_data ! 0) + 1))
      \<and> moving_energy_gates d @ static_energy_gates d =
          take (unat (eng_data ! 0) + 1 + (unat (eng_data ! 1) + 1)) (drop 2 eng_data))
    \<and> parse_engineering [2, ms, a, b] =
        Inr \<lparr>max_moving_distance_gate = 2, max_static_distance_gate = ms,
             moving_energy_gates = [a, b], static_energy_gates = []\<rparr>"
proof -
  let ?mm = "unat (eng_data ! 0) + 1" and ?ms = "unat (eng_data ! 1) + 1"
  let ?d = "\<lparr>max_moving_distance_gate = eng_data ! 0,
                max_static_distance_gate = eng_data ! 1,
                moving_energy_gates = take ?mm (drop 2 eng_data),
                static_energy_gates = take ?ms (drop (2 + ?mm) eng_data)\<rparr>"
  have p: "parse_engineering eng_data = Inr ?d"
    using assms by (simp only: parse_engineering_eq) simp
  have c: "moving_energy_gates ?d @ static_energy_gates ?d = take (?mm + ?ms) (drop 2 eng_data)"
    using take_take_drop [of ?mm 2 eng_data ?ms] by simp
  have l1: "length (moving_energy_gates ?d) = min ?mm (length eng_data - 2)" by simp
  have l2: "length (static_energy_gates ?d) = min ?ms (length eng_data - 2 - ?mm)" by simp
  have ex: "parse_engineering [2, ms, a, b] =
        Inr \<lparr>max_moving_distance_gate = 2, max_static_distance_gate = ms,
             moving_energy_gates = [a, b], static_energy_gates = []\<rparr>"
    by (simp only: parse_engineering_eq) simp
  have "\<exists>d. parse_engineering eng_data = Inr d
      \<and> max_moving_distance_gate d = eng_data ! 0
      \<and> max_static_distance_gate d = eng_data ! 1
      \<and> moving_energy_gates d = take ?mm (drop 2 eng_data)
      \<and> static_energy_gates d = take ?ms (drop (2 + ?mm) eng_data)
      \<and> length (moving_energy_gates d) = min ?mm (length eng_data - 2)
      \<and> length (static_energy_gates d) = min ?ms (length eng_data - 2 - ?mm)
      \<and> moving_energy_gates d @ static_energy_gates d = take (?mm + ?ms) (drop 2 eng_data)"
    apply (rule exI [of _ ?d])
    using p c l1 l2 by simp
  with ex show ?thesis by blast
qed

text \<open>The same through \<^verbatim>\<open>read_frame\<close>, in engineering mode, on a report frame whose
  payload declares three moving gates and carries two.\<close>

theorem parse_engineering_truncates_witness:
  "2 \<le> length [2, 0, 7, 9 :: byte]
   \<and> (\<exists>d. parse_engineering [2, 0, 7, 9] = Inr d \<and> moving_energy_gates d = [7, 9]
         \<and> static_energy_gates d = [] \<and> length (moving_energy_gates d) = 2)
   \<and> fst (read_frame ((RadarHandler_init [short_engineering_frame])\<lparr>engineering_mode := True\<rparr>))
       = Some \<lparr>target_state = STATIC_TARGET, moving_target_distance = 30,
               moving_target_energy = 50, static_target_distance = 30,
               static_target_energy = 40, detection_distance = 30,
               engineering_data =
                 Some \<lparr>max_moving_distance_gate = 2, max_static_distance_gate = 0,
                       moving_energy_gates = [7, 9], static_energy_gates = []\<rparr>\<rparr>"
proof -
  have rf: "fst (read_frame ((RadarHandler_init [short_engineering_frame])\<lparr>engineering_mode := True\<rparr>))
       = Some \<lparr>target_state = STATIC_TARGET, moving_target_distance = 30,
               moving_target_energy = 50, static_target_distance = 30,
               static_target_energy = 40, detection_distance = 30,
               engineering_data =
                 Some \<lparr>max_moving_distance_gate = 2, max_static_distance_gate = 0,
                       moving_energy_gates = [7, 9], static_energy_gates = []\<rparr>\<rparr>"
    by code_simp
  from parse_engineering_truncates [of "[2, 0, 7, 9]"] rf show ?thesis by auto
qed

section \<open>MovingAverage\<close>




section \<open>The sensitivity sweep\<close>




section \<open>The history buffer\<close>

text \<open>
  C8. Starting from a handler whose buffer holds at most 1000 readings, all valid (as
  the new handler's empty buffer does), any number of \<^verbatim>\<open>read_frame\<close> calls returns, for
  each line read in turn, the reading the line decodes to when that reading is valid, and
  \<^verbatim>\<open>None\<close> otherwise. Afterwards the buffer holds at most 1000 readings, all valid: the
  last 1000 of its earlier contents followed by the readings returned, in arrival order.
  In one call, a frame that decodes to a valid reading is returned and appended, and when
  the buffer already holds 1000 readings its oldest one is dropped; a frame that decodes
  to a reading that fails validity is neither returned nor buffered: the call yields
  \<^verbatim>\<open>None\<close>. \<^verbatim>\<open>read_frame\<close> is a total function of the state, so it never ends in an
  error. The frame of a static target at 30 cm carries a valid reading; the one with a
  detection distance of 601 cm carries none.
\<close>

theorem history_buffer_invariant:
  assumes "read_frames n s = (results, s')"
    and "max_buffer_size s = 1000"
    and "length (readings_buffer s) \<le> 1000"
    and "\<forall>r \<in> set (readings_buffer s). is_valid r"
  shows "results = map (valid_reading (engineering_mode s)) (lines_read n (serial_in s))
     \<and> readings_buffer s' =
         drop (length (readings_buffer s @ yielded results) - 1000)
           (readings_buffer s @ yielded results)
     \<and> length (readings_buffer s') \<le> 1000
     \<and> (\<forall>r \<in> set (readings_buffer s'). is_valid r)
     \<and> (\<forall>r \<in> set (yielded results). is_valid r)
     \<and> (\<forall>r. decode_frame (engineering_mode s) (hd (lines_read 1 (serial_in s))) = Inr (Some r)
          \<longrightarrow> (is_valid r \<longrightarrow>
                 fst (read_frame s) = Some r
                 \<and> (length (readings_buffer s) < 1000 \<longrightarrow>
                      readings_buffer (snd (read_frame s)) = readings_buffer s @ [r])
                 \<and> (length (readings_buffer s) = 1000 \<longrightarrow>
                      readings_buffer (snd (read_frame s)) = tl (readings_buffer s) @ [r]))
              \<and> (\<not> is_valid r \<longrightarrow>
                 fst (read_frame s) = None
                 \<and> readings_buffer (snd (read_frame s)) = readings_buffer s))
     \<and> valid_reading False static_frame =
         Some (mk_reading STATIC_TARGET 50 40 30\<lparr>moving_target_distance := 30,
                 static_target_distance := 30\<rparr>)
     \<and> valid_reading False far_frame = None"
proof -
  have len: "length (readings_buffer s) \<le> max_buffer_size s" using assms(2,3) by simp
  note inv = read_frames_invariant [OF assms(1) len]
  have res: "results = map (valid_reading (engineering_mode s)) (lines_read n (serial_in s))"
    using read_frames_results [of n s] assms(1) by simp
  have b: "readings_buffer s' =
         drop (length (readings_buffer s @ yielded results) - 1000)
           (readings_buffer s @ yielded results)"
    using inv assms(2) by simp
  have y: "\<forall>r \<in> set (yielded results). is_valid r" using inv by simp
  have l: "length (readings_buffer s') \<le> 1000" unfolding b by simp
  have v: "\<forall>r \<in> set (readings_buffer s'). is_valid r"
  proof
    fix r assume "r \<in> set (readings_buffer s')"
    then have "r \<in> set (readings_buffer s @ yielded results)"
      unfolding b by (rule in_set_dropD)
    with assms(4) y show "is_valid r" by auto
  qed
  have g: "\<forall>r. decode_frame (engineering_mode s) (hd (lines_read 1 (serial_in s))) = Inr (Some r)
          \<longrightarrow> (is_valid r \<longrightarrow>
                 fst (read_frame s) = Some r
                 \<and> (length (readings_buffer s) < 1000 \<longrightarrow>
                      readings_buffer (snd (read_frame s)) = readings_buffer s @ [r])
                 \<and> (length (readings_buffer s) = 1000 \<longrightarrow>
                      readings_buffer (snd (read_frame s)) = tl (readings_buffer s) @ [r]))
              \<and> (\<not> is_valid r \<longrightarrow>
                 fst (read_frame s) = None
                 \<and> readings_buffer (snd (read_frame s)) = readings_buffer s)"
  proof (intro allI impI conjI)
    fix r assume d: "decode_frame (engineering_mode s) (hd (lines_read 1 (serial_in s))) = Inr (Some r)"
    { assume "is_valid r"
      from read_frame_gate(1) [OF refl d this]
      show "fst (read_frame s) = Some r" by simp }
    { assume "is_valid r" and "length (readings_buffer s) < 1000"
      with read_frame_gate(1) [OF refl d] assms(2)
      show "readings_buffer (snd (read_frame s)) = readings_buffer s @ [r]" by simp }
    { assume "is_valid r" and f: "length (readings_buffer s) = 1000"
      then have "readings_buffer s \<noteq> []" by auto
      with read_frame_gate(1) [OF refl d \<open>is_valid r\<close>] assms(2) f
      show "readings_buffer (snd (read_frame s)) = tl (readings_buffer s) @ [r]" by simp }
    { assume "\<not> is_valid r"
      from read_frame_gate(2) [OF refl d this]
      show "fst (read_frame s) = None" and "readings_buffer (snd (read_frame s)) = readings_buffer s"
        by simp_all }
  qed
  have e1: "valid_reading False static_frame =
         Some (mk_reading STATIC_TARGET 50 40 30\<lparr>moving_target_distance := 30,
                 static_target_distance := 30\<rparr>)"
    by (simp add: valid_reading_def decode_static_frame is_valid_def mk_reading_def)
  have e2: "valid_reading False far_frame = None"
    by (simp add: valid_reading_def decode_far_frame is_valid_def mk_reading_def)
  from res b l v y g e1 e2 show ?thesis by blast
qed

theorem history_buffer_invariant_witness:
  "max_buffer_size (RadarHandler_init [static_frame, far_frame, static_frame]) = 1000
   \<and> readings_buffer (RadarHandler_init [static_frame, far_frame, static_frame]) = []
   \<and> fst (read_frames 4 (RadarHandler_init [static_frame, far_frame, static_frame]))
       = [Some (mk_reading STATIC_TARGET 50 40 30\<lparr>moving_target_distance := 30,
                  static_target_distance := 30\<rparr>),
          None,
          Some (mk_reading STATIC_TARGET 50 40 30\<lparr>moving_target_distance := 30,
                  static_target_distance := 30\<rparr>),
          None]
   \<and> readings_buffer (snd (read_frames 4 (RadarHandler_init [static_frame, far_frame, static_frame])))
       = [mk_reading STATIC_TARGET 50 40 30\<lparr>moving_target_distance := 30,
            static_target_distance := 30\<rparr>,
          mk_reading STATIC_TARGET 50 40 30\<lparr>moving_target_distance := 30,
            static_target_distance := 30\<rparr>]
   \<and> fst (read_frame ((RadarHandler_init [static_frame])
             \<lparr>readings_buffer := replicate 1000 (mk_reading NO_TARGET 0 0 0)\<rparr>))
       = Some (mk_reading STATIC_TARGET 50 40 30\<lparr>moving_target_distance := 30,
                 static_target_distance := 30\<rparr>)
   \<and> readings_buffer (snd (read_frame ((RadarHandler_init [static_frame])
             \<lparr>readings_buffer := replicate 1000 (mk_reading NO_TARGET 0 0 0)\<rparr>)))
       = replicate 999 (mk_reading NO_TARGET 0 0 0)
           @ [mk_reading STATIC_TARGET 50 40 30\<lparr>moving_target_distance := 30,
                static_target_distance := 30\<rparr>]"
proof -
  let ?s = "RadarHandler_init [static_frame, far_frame, static_frame]"
  let ?r = "mk_reading STATIC_TARGET 50 40 30\<lparr>moving_target_distance := 30,
              static_target_distance := 30\<rparr>"
  let ?idle = "mk_reading NO_TARGET 0 0 0"
  let ?f = "(RadarHandler_init [static_frame])\<lparr>readings_buffer := replicate 1000 ?idle\<rparr>"
  have m: "max_buffer_size ?s = 1000" and e: "readings_buffer ?s = []"
    and em: "engineering_mode ?s = False"
    and si: "serial_in ?s = [static_frame, far_frame, static_frame]"
    by (simp_all add: RadarHandler_init_def)
  have rf: "read_frames 4 ?s = (fst (read_frames 4 ?s), snd (read_frames 4 ?s))" by simp
  have lz: "length (readings_buffer ?s) \<le> 1000"
    and vz: "\<forall>r \<in> set (readings_buffer ?s). is_valid r"
    by (simp_all add: e)
  note run = history_buffer_invariant [OF rf m lz vz]
  from run have vs: "valid_reading False static_frame = Some ?r"
    and vf: "valid_reading False far_frame = None"
    by blast+
  have ve: "valid_reading False [] = None"
    by (simp add: valid_reading_def decode_frame_def REPORT_HEADER_def)
  have lr: "lines_read 4 [static_frame, far_frame, static_frame]
              = [static_frame, far_frame, static_frame, []]"
    by (simp add: eval_nat_numeral)
  from run
  have f: "fst (read_frames 4 ?s) = map (valid_reading (engineering_mode ?s)) (lines_read 4 (serial_in ?s))"
    by blast
  from run e
  have b: "readings_buffer (snd (read_frames 4 ?s)) =
             drop (length (yielded (fst (read_frames 4 ?s))) - 1000)
               (yielded (fst (read_frames 4 ?s)))"
    by simp
  have f': "fst (read_frames 4 ?s) = [Some ?r, None, Some ?r, None]"
    unfolding f em si lr by (simp add: vs vf ve)
  have b': "readings_buffer (snd (read_frames 4 ?s)) = [?r, ?r]" unfolding b f' by simp
  have mf: "max_buffer_size ?f = 1000" and lf: "length (readings_buffer ?f) \<le> 1000"
    and vfull: "\<forall>r \<in> set (readings_buffer ?f). is_valid r"
    and full: "length (readings_buffer ?f) = 1000"
    and bf: "readings_buffer ?f = replicate 1000 ?idle"
    by (simp_all add: RadarHandler_init_def is_valid_def mk_reading_def)
  have d: "decode_frame (engineering_mode ?f) (hd (lines_read 1 (serial_in ?f))) = Inr (Some ?r)"
    by (simp add: RadarHandler_init_def decode_static_frame)
  have vr: "is_valid ?r" by (simp add: is_valid_def mk_reading_def)
  have rf1: "read_frames 1 ?f = (fst (read_frames 1 ?f), snd (read_frames 1 ?f))" by simp
  from history_buffer_invariant [OF rf1 mf lf vfull] d vr full
  have o: "fst (read_frame ?f) = Some ?r"
    and ev: "readings_buffer (snd (read_frame ?f)) = tl (readings_buffer ?f) @ [?r]"
    by blast+
  have t: "tl (replicate 1000 ?idle) = replicate 999 ?idle"
    by (simp add: tl_replicate)
  from ev have ev': "readings_buffer (snd (read_frame ?f)) = replicate 999 ?idle @ [?r]"
    unfolding bf t .
  from m e f' b' o ev' show ?thesis by blast
qed

section \<open>The response of a command\<close>

text \<open>
  C9. \<^verbatim>\<open>send_command\<close> never returns a non-empty response shorter than 12 bytes. For a
  command word and value of fewer than 65536 bytes together it returns (beyond that,
  encoding the length raises OverflowError before anything is written), and what it
  returns is the empty byte string exactly when the transport delivered fewer than 12
  bytes, and a byte string of at least 12 bytes otherwise; the status field, bytes 8 and
  9, of a non-empty result is two bytes long.
\<close>

theorem send_command_response_length:
  "(length cw + length cv < 65536 \<longrightarrow> (\<exists>resp s'. send_command cw cv s = Inr (resp, s')))
   \<and> (\<forall>resp s'. send_command cw cv s = Inr (resp, s') \<longrightarrow>
         (resp = [] \<or> 12 \<le> length resp)
         \<and> ((resp = []) = (length (fst (serial_read_until (Some 100) s)) < 12))
         \<and> (resp \<noteq> [] \<longrightarrow> resp = fst (serial_read_until (Some 100) s)
                             \<and> length (slice 8 10 resp) = 2))"
proof (intro conjI impI allI)
  assume "length cw + length cv < 65536"
  then show "\<exists>resp s'. send_command cw cv s = Inr (resp, s')"
    by (auto simp: send_command_def to_bytes_little_2 Let_def split: prod.splits)
next
  fix resp s' assume h: "send_command cw cv s = Inr (resp, s')"
  then show "resp = [] \<or> 12 \<le> length resp"
    by (auto simp: send_command_def Let_def split: sum.splits prod.splits if_splits)
next
  fix resp s' assume h: "send_command cw cv s = Inr (resp, s')"
  then show "(resp = []) = (length (fst (serial_read_until (Some 100) s)) < 12)"
    by (auto simp: send_command_def serial_write_def serial_read_until_def Let_def
          split: sum.splits list.splits if_splits)
next
  fix resp s' assume h: "send_command cw cv s = Inr (resp, s')" and ne: "resp \<noteq> []"
  then show "resp = fst (serial_read_until (Some 100) s)"
    by (auto simp: send_command_def serial_write_def serial_read_until_def Let_def
          split: sum.splits list.splits if_splits)
next
  fix resp s' assume h: "send_command cw cv s = Inr (resp, s')" and ne: "resp \<noteq> []"
  then have "12 \<le> length resp"
    by (auto simp: send_command_def Let_def split: sum.splits prod.splits if_splits)
  then show "length (slice 8 10 resp) = 2" by (simp add: slice_def)
qed

theorem send_command_response_length_witness:
  "length [0xFF, 0x00 :: byte] + length [0x01, 0x00 :: byte] < 65536
   \<and> (\<exists>s'. send_command [0xFF, 0x00] [0x01, 0x00]
               (RadarHandler_init [[0xFD, 0xFC, 0xFB, 0xFA, 0x08]]) = Inr ([], s'))
   \<and> (\<exists>s'. send_command [0xFF, 0x00] [0x01, 0x00] (RadarHandler_init [ack_enter])
               = Inr (ack_enter, s'))
   \<and> length (slice 8 10 ack_enter) = 2"
proof -
  have s: "\<exists>s'. send_command [0xFF, 0x00] [0x01, 0x00]
               (RadarHandler_init [[0xFD, 0xFC, 0xFB, 0xFA, 0x08]]) = Inr ([], s')"
    by (simp add: send_command_def to_bytes_little_2 serial_write_def serial_read_until_def
          RadarHandler_init_def)
  have a: "\<exists>s'. send_command [0xFF, 0x00] [0x01, 0x00] (RadarHandler_init [ack_enter])
               = Inr (ack_enter, s')"
    by (simp add: send_command_def to_bytes_little_2 serial_write_def serial_read_until_def
          RadarHandler_init_def ack_enter_def)
  have n: "ack_enter \<noteq> []" by (simp add: ack_enter_def)
  from send_command_response_length [of "[0xFF, 0x00]" "[0x01, 0x00]"
         "RadarHandler_init [ack_enter]"] a n
  have "length (slice 8 10 ack_enter) = 2" by blast
  with s a show ?thesis by simp
qed

section \<open>A sweep that detects nothing\<close>

text \<open>
  C10. When no tested sensitivity has a detection rate above 0,
  \<^verbatim>\<open>find_optimal_sensitivity\<close> returns the pair (0, 0) (for a sample count other than
  0 it does return; with 0 samples and a sensitivity to test, the division of the first
  round raises). The sensitivity returned
  is the initial 0 also when \<open>min_sensitivity\<close> is above 0, and then it is not one of
  the sensitivities tested.
\<close>

theorem sweep_no_detection:
  assumes "\<forall>x \<in> set (sweep_trace (py_range lo (hi + 1) 5) samples c). snd x \<le> 0"
  shows "(samples \<noteq> 0 \<longrightarrow>
            (\<exists>c'. find_optimal_sensitivity d lo hi samples c = Inr ((0, 0), c')))
       \<and> (\<forall>best c'. find_optimal_sensitivity d lo hi samples c = Inr (best, c') \<longrightarrow>
             best = (0, 0) \<and> (0 < lo \<longrightarrow> fst best \<notin> set (py_range lo (hi + 1) 5)))"
proof -
  from assms have le: "\<forall>x \<in> set (sweep_trace (py_range lo (hi + 1) 5) samples c).
      snd x \<le> snd (0 :: int, 0 :: real)" by simp
  note keep = pick_best_keep [OF le]
  have ret: "samples \<noteq> 0 \<longrightarrow>
            (\<exists>c'. find_optimal_sensitivity d lo hi samples c = Inr ((0, 0), c'))"
  proof
    assume "samples \<noteq> 0"
    from find_optimal_as_pick [OF this, of d lo hi c] keep
    show "\<exists>c'. find_optimal_sensitivity d lo hi samples c = Inr ((0, 0), c')" by simp
  qed
  have val: "\<forall>best c'. find_optimal_sensitivity d lo hi samples c = Inr (best, c') \<longrightarrow>
             best = (0, 0) \<and> (0 < lo \<longrightarrow> fst best \<notin> set (py_range lo (hi + 1) 5))"
  proof (intro allI impI)
    fix best c' assume r: "find_optimal_sensitivity d lo hi samples c = Inr (best, c')"
    have b: "best = (0, 0)"
    proof (cases "samples = 0")
      case True
      with r show ?thesis
        by (simp add: find_optimal_sensitivity_def sweep_loop_zero split: if_splits)
    next
      case False
      from find_optimal_as_pick [OF False, of d lo hi c] keep r show ?thesis by auto
    qed
    then show "best = (0, 0) \<and> (0 < lo \<longrightarrow> fst best \<notin> set (py_range lo (hi + 1) 5))"
      by (simp add: py_range_set)
  qed
  from ret val show ?thesis by blast
qed

theorem sweep_no_detection_witness:
  "(\<exists>c'. find_optimal_sensitivity 75 10 20 30 (RadarCalibrator_init []) = Inr ((0, 0), c'))
   \<and> (0 :: int) < 10
   \<and> (0 :: int) \<notin> set (py_range 10 (20 + 1) 5)"
proof -
  have t: "\<forall>x \<in> set (sweep_trace (py_range 10 (20 + 1) 5) 30 (RadarCalibrator_init [])).
     snd x \<le> 0" by code_simp
  from sweep_no_detection [OF t, of 75]
  have r: "\<exists>c'. find_optimal_sensitivity 75 10 20 30 (RadarCalibrator_init []) = Inr ((0, 0), c')"
    and n: "\<forall>best c'. find_optimal_sensitivity 75 10 20 30 (RadarCalibrator_init [])
                = Inr (best, c') \<longrightarrow> fst best \<notin> set (py_range 10 (20 + 1) 5)"
    by simp_all
  from r n have "(0 :: int) \<notin> set (py_range 10 (20 + 1) 5)" by fastforce
  with r show ?thesis by simp
qed

end
